theory Spec2Isabelle
  imports Main
begin

section \<open>Pre-keys (src/Utils/signal.ts)\<close>

text \<open>
  JavaScript numbers that hold identifiers and counters are modelled as \<open>int\<close>.
  A key pair is a pair of byte strings. \<open>Curve.generateKeyPair()\<close> is a source of
  randomness: the pair it returns when the loop is at id \<open>i\<close> is the input \<open>gen i\<close>.
\<close>

record KeyPair =
  kp_private :: string
  kp_public :: string

record AuthenticationCreds =
  nextPreKeyId :: int
  firstUnuploadedPreKeyId :: int

record PreKeysResult =
  newPreKeys :: "(int \<times> KeyPair) list"
  lastPreKeyId :: int
  preKeysRange :: "int \<times> int"

definition generateOrGetPreKeys ::
  "(int \<Rightarrow> KeyPair) \<Rightarrow> AuthenticationCreds \<Rightarrow> int \<Rightarrow> PreKeysResult" where
  "generateOrGetPreKeys gen creds count =
     (let avaliable = nextPreKeyId creds - firstUnuploadedPreKeyId creds;
          remaining = count - avaliable;
          last = nextPreKeyId creds + remaining - 1
      in \<lparr> newPreKeys =
             (if remaining > 0
              then map (\<lambda>i. (i, gen i)) [nextPreKeyId creds .. last]
              else []),
           lastPreKeyId = last,
           preKeysRange = (firstUnuploadedPreKeyId creds, count) \<rparr>)"

text \<open>The \<open>pre-key\<close> namespace of the key store: a dictionary from id to key pair.\<close>

type_synonym PreKeyStore = "int \<rightharpoonup> KeyPair"

text \<open>\<open>keys.set({'pre-key': newPreKeys})\<close>: every entry of the object is stored.\<close>

definition keys_set_pre_key :: "PreKeyStore \<Rightarrow> (int \<times> KeyPair) list \<Rightarrow> PreKeyStore" where
  "keys_set_pre_key store kvs = fold (\<lambda>(i, kp) m. m(i \<mapsto> kp)) kvs store"

text \<open>
  \<open>getPreKeys\<close> asks the store for the ids \<open>min, ..., limit - 1\<close>; the answer holds
  the ids the store knows, in the order asked.
\<close>

definition getPreKeys :: "PreKeyStore \<Rightarrow> int \<Rightarrow> int \<Rightarrow> (int \<times> KeyPair) list" where
  "getPreKeys store mn limit =
     List.map_filter (\<lambda>i. map_option (Pair i) (store i)) [mn .. limit - 1]"

record CredsUpdate =
  upd_nextPreKeyId :: int
  upd_firstUnuploadedPreKeyId :: int

record NextPreKeys =
  npk_update :: CredsUpdate
  npk_preKeys :: "(int \<times> KeyPair) list"
  npk_keys :: PreKeyStore

definition getNextPreKeys ::
  "(int \<Rightarrow> KeyPair) \<Rightarrow> AuthenticationCreds \<Rightarrow> PreKeyStore \<Rightarrow> int \<Rightarrow> NextPreKeys" where
  "getNextPreKeys gen creds keys count =
     (let r = generateOrGetPreKeys gen creds count;
          update = \<lparr> upd_nextPreKeyId = max (lastPreKeyId r + 1) (nextPreKeyId creds),
                     upd_firstUnuploadedPreKeyId =
                       max (firstUnuploadedPreKeyId creds) (lastPreKeyId r + 1) \<rparr>;
          keys' = keys_set_pre_key keys (newPreKeys r);
          preKeys = getPreKeys keys' (fst (preKeysRange r))
                      (fst (preKeysRange r) + snd (preKeysRange r))
      in \<lparr> npk_update = update, npk_preKeys = preKeys, npk_keys = keys' \<rparr>)"

text \<open>
  The \<open>creds.update\<close> listener of the socket (\<open>Object.assign(creds, update)\<close>), for the
  two counters that \<open>getNextPreKeys\<close> puts in the update.
\<close>

definition assign_creds :: "AuthenticationCreds \<Rightarrow> CredsUpdate \<Rightarrow> AuthenticationCreds" where
  "assign_creds creds update =
     creds\<lparr> nextPreKeyId := upd_nextPreKeyId update,
            firstUnuploadedPreKeyId := upd_firstUnuploadedPreKeyId update \<rparr>"

definition creds_invariant :: "AuthenticationCreds \<Rightarrow> bool" where
  "creds_invariant creds = (firstUnuploadedPreKeyId creds \<le> nextPreKeyId creds)"

section \<open>Closing the socket and QR rotation (src/Socket/socket.ts)\<close>

text \<open>
  The state of one connection: the variables that \<open>makeSocket\<close> closes over and the
  part of the WebSocket and of the event emitter that \<open>end\<close> and \<open>genPairQR\<close> touch.
  A pending timer is \<open>Some delay\<close> (milliseconds), a cleared or fired one is \<open>None\<close>.
  \<open>emitted\<close> lists the \<open>connection.update\<close> events handed to \<open>ev.emit\<close>, oldest
  first. Calls of the logger are not part of the state.
\<close>

datatype ReadyState = CONNECTING | OPEN | CLOSING | CLOSED

text \<open>
  The members of \<open>DisconnectReason\<close> that socket.ts names; their numbers are declared
  in Types, outside src/. \<open>StatusCode n\<close> is a status code given as a number.
\<close>

datatype DisconnectReason =
  connectionClosed | connectionLost | timedOut | loggedOut | multideviceMismatch
  | StatusCode int

record Boom =
  boom_message :: string
  statusCode :: DisconnectReason

datatype ConnectionUpdate =
  UpdateQR string
  | UpdateClose "Boom option" nat

record Socket =
  closed :: bool
  readyState :: ReadyState
  keepAliveReq :: "nat option"
  qrTimer :: "nat option"
  wsListeners :: "string list"
  evListeners :: "string list"
  emitted :: "ConnectionUpdate list"

text \<open>
  \<open>end(error)\<close>; \<open>now\<close> is the value of \<open>new Date()\<close>. \<open>ws.close()\<close> moves a
  WebSocket that is neither closed nor closing to \<open>CLOSING\<close>; what it throws is caught
  and dropped.
\<close>

definition end_sock :: "Boom option \<Rightarrow> nat \<Rightarrow> Socket \<Rightarrow> Socket" where
  "end_sock error now s =
     (if closed s then s
      else s\<lparr> closed := True,
              keepAliveReq := None,
              qrTimer := None,
              wsListeners :=
                filter (\<lambda>n. n \<notin> {''close'', ''error'', ''open'', ''message''}) (wsListeners s),
              readyState :=
                (if readyState s \<noteq> CLOSED \<and> readyState s \<noteq> CLOSING then CLOSING
                 else readyState s),
              emitted := emitted s @ [UpdateClose error now],
              evListeners := filter (\<lambda>n. n \<noteq> ''connection.update'') (evListeners s) \<rparr>)"

text \<open>A sequence of calls of \<open>end\<close>, each with its error argument and its clock value.\<close>

fun end_calls :: "(Boom option \<times> nat) list \<Rightarrow> Socket \<Rightarrow> Socket" where
  "end_calls [] s = s"
| "end_calls ((error, now) # calls) s = end_calls calls (end_sock error now s)"

fun is_close :: "ConnectionUpdate \<Rightarrow> bool" where
  "is_close (UpdateClose _ _) = True"
| "is_close _ = False"

text \<open>
  The handler of \<open>CB:iq,type:set,pair-device\<close>, from the point where the result IQ
  has been sent. Its local variables are \<open>refNodes\<close> (here the contents of the ref
  nodes, read as UTF-8 strings) and \<open>qrMs\<close>. \<open>qrTimeout\<close> is a number or undefined;
  \<open>qrTimeout || d\<close> is \<open>d\<close> when it is undefined or zero.
\<close>

record PairQR =
  refNodes :: "string list"
  qrMs :: nat

record QRKeys =
  noiseKeyB64 :: string
  identityKeyB64 :: string
  advB64 :: string

definition js_or :: "nat option \<Rightarrow> nat \<Rightarrow> nat" where
  "js_or v d = (case v of None \<Rightarrow> d | Some n \<Rightarrow> if n = 0 then d else n)"

fun join_comma :: "string list \<Rightarrow> string" where
  "join_comma [] = []"
| "join_comma [x] = x"
| "join_comma (x # y # ys) = x @ '','' @ join_comma (y # ys)"

definition genPairQR ::
  "nat option \<Rightarrow> QRKeys \<Rightarrow> nat \<Rightarrow> Socket \<times> PairQR \<Rightarrow> Socket \<times> PairQR" where
  "genPairQR qrTimeout keys now sp =
     (let s = fst sp; p = snd sp in
      if readyState s \<noteq> OPEN then (s, p)
      else case refNodes p of
        [] \<Rightarrow>
          (end_sock (Some \<lparr> boom_message = ''QR refs attempts ended'', statusCode = timedOut \<rparr>) now s,
           p)
      | ref # rest \<Rightarrow>
          (let qr = join_comma [ref, noiseKeyB64 keys, identityKeyB64 keys, advB64 keys]
           in (s\<lparr> emitted := emitted s @ [UpdateQR qr], qrTimer := Some (qrMs p) \<rparr>,
               \<lparr> refNodes = rest, qrMs = js_or qrTimeout 20000 \<rparr>)))"

text \<open>The first call of \<open>genPairQR\<close>, made by the handler itself.\<close>

definition pair_device ::
  "nat option \<Rightarrow> QRKeys \<Rightarrow> string list \<Rightarrow> nat \<Rightarrow> Socket \<Rightarrow> Socket \<times> PairQR" where
  "pair_device qrTimeout keys refs now s =
     genPairQR qrTimeout keys now (s, \<lparr> refNodes = refs, qrMs = js_or qrTimeout 60000 \<rparr>)"

text \<open>The pending QR timer fires: it is no longer pending, and \<open>genPairQR\<close> runs.\<close>

definition qr_timer_fires ::
  "nat option \<Rightarrow> QRKeys \<Rightarrow> nat \<Rightarrow> Socket \<times> PairQR \<Rightarrow> Socket \<times> PairQR" where
  "qr_timer_fires qrTimeout keys now sp =
     (case qrTimer (fst sp) of
        None \<Rightarrow> sp
      | Some _ \<Rightarrow> genPairQR qrTimeout keys now ((fst sp)\<lparr> qrTimer := None \<rparr>, snd sp))"

definition qr_of :: "QRKeys \<Rightarrow> string \<Rightarrow> string" where
  "qr_of keys ref = ref @ '','' @ noiseKeyB64 keys @ '','' @ identityKeyB64 keys @ '','' @ advB64 keys"

text \<open>
  The socket after the handler has run and the QR timer has fired \<open>j\<close> times.
\<close>

definition qr_run ::
  "nat option \<Rightarrow> QRKeys \<Rightarrow> nat \<Rightarrow> string list \<Rightarrow> Socket \<Rightarrow> nat \<Rightarrow> Socket" where
  "qr_run qrTimeout keys now refs s j =
     fst ((qr_timer_fires qrTimeout keys now ^^ j) (pair_device qrTimeout keys refs now s))"

definition qr_refs_ended :: Boom where
  "qr_refs_ended = \<lparr> boom_message = ''QR refs attempts ended'', statusCode = timedOut \<rparr>"

text \<open>A socket in the pairing phase and the three strings of the QR, for examples.\<close>

definition pairing_socket :: Socket where
  "pairing_socket =
     \<lparr> closed = False, readyState = OPEN, keepAliveReq = Some 30000, qrTimer = None,
       wsListeners = [''message'', ''open'', ''error'', ''close''],
       evListeners = [''connection.update'', ''creds.update''], emitted = [] \<rparr>"

definition pairing_keys :: QRKeys where
  "pairing_keys = \<lparr> noiseKeyB64 = ''bm9pc2U='', identityKeyB64 = ''aWRlbnQ='', advB64 = ''YWR2'' \<rparr>"

section \<open>App-state resync (src/unnamed/part_001, \<open>resyncAppState\<close>)\<close>

text \<open>
  An \<open>LTHashState\<close> as the sync loop sees it: the loop reads only \<open>version\<close>. Patches,
  snapshots and mutations are opaque byte strings here.
\<close>

record LTHashState =
  version :: nat
  hash :: string
  indexValueMap :: "(string \<times> string) list"

type_synonym ChatMutationMap = "string \<rightharpoonup> string"

text \<open>What the catch branch reads of a thrown error: \<open>error.output?.statusCode\<close> and \<open>error.name\<close>.\<close>

record SyncError =
  output_statusCode :: "int option"
  error_name :: string

text \<open>One entry of the object returned by \<open>extractSyncdPatches\<close>.\<close>

record Decoded =
  patches :: "string list"
  hasMorePatches :: bool
  snapshot :: "string option"

text \<open>
  The collaborators of the loop that live in Utils, outside src/, are parameters:
  \<open>decodeSyncdSnapshot name snapshot initialVersion verify\<close> and
  \<open>decodePatches name patches state initialVersion verify\<close> either throw or return the
  new state with its mutation map (the key lookup \<open>getAppStateSyncKey\<close> is part of
  them); \<open>newLTHashState\<close> is the fresh state; the two booleans are
  \<open>appStateMacVerification.snapshot\<close> and \<open>appStateMacVerification.patch\<close>.
\<close>

record SyncEnv =
  decodeSyncdSnapshot ::
    "string \<Rightarrow> string \<Rightarrow> nat option \<Rightarrow> bool \<Rightarrow> SyncError + (LTHashState \<times> ChatMutationMap)"
  decodePatches ::
    "string \<Rightarrow> string list \<Rightarrow> LTHashState option \<Rightarrow> nat option \<Rightarrow> bool
       \<Rightarrow> SyncError + (LTHashState \<times> ChatMutationMap)"
  newLTHashState :: LTHashState
  macVerification_snapshot :: bool
  macVerification_patch :: bool

definition MAX_SYNC_ATTEMPTS :: nat where
  "MAX_SYNC_ATTEMPTS = 2"

text \<open>
  The variables of one call of \<open>resyncAppState\<close>: the \<open>app-state-sync-version\<close>
  namespace of the key store (\<open>None\<close> is a missing or null entry), the set
  \<open>collectionsToHandle\<close> in insertion order, \<open>attemptsMap\<close>, \<open>initialVersionMap\<close>,
  \<open>globalMutationMap\<close>, the \<open>states\<close> of the current round and the collection nodes
  sent so far (name, version, return_snapshot), one list per query.
\<close>

record Resync =
  versions :: "string \<rightharpoonup> LTHashState"
  collectionsToHandle :: "string list"
  attemptsMap :: "string \<rightharpoonup> nat"
  initialVersionMap :: "string \<rightharpoonup> nat"
  globalMutationMap :: ChatMutationMap
  states :: "string \<rightharpoonup> LTHashState"
  sent :: "(string \<times> nat \<times> bool) list list"

text \<open>The body of \<open>for(const name of collectionsToHandle)\<close>: load the state, add a node.\<close>

definition load_state ::
  "SyncEnv \<Rightarrow> string \<Rightarrow> Resync \<times> (string \<times> nat \<times> bool) list
     \<Rightarrow> Resync \<times> (string \<times> nat \<times> bool) list" where
  "load_state env name sn =
     (let st = fst sn; nodes = snd sn;
          st1 = (case versions st name of
                   Some state \<Rightarrow>
                     (if initialVersionMap st name = None
                      then st\<lparr> initialVersionMap := (initialVersionMap st)(name \<mapsto> version state) \<rparr>
                      else st)
                 | None \<Rightarrow> st);
          state = (case versions st name of Some state \<Rightarrow> state | None \<Rightarrow> newLTHashState env)
      in (st1\<lparr> states := (states st1)(name \<mapsto> state) \<rparr>,
          nodes @ [(name, version state, version state = 0)]))"

text \<open>
  The try block, in three parts. Each returns the error thrown, if any, with the state
  at that point: what was stored before a throw stays stored.
\<close>

definition sync_snapshot :: "SyncEnv \<Rightarrow> string \<Rightarrow> Decoded \<Rightarrow> Resync \<Rightarrow> SyncError option \<times> Resync" where
  "sync_snapshot env name d st =
     (case snapshot d of
        None \<Rightarrow> (None, st)
      | Some snap \<Rightarrow>
          (case decodeSyncdSnapshot env name snap (initialVersionMap st name)
                  (macVerification_snapshot env) of
             Inl error \<Rightarrow> (Some error, st)
           | Inr (newState, mutationMap) \<Rightarrow>
               (None, st\<lparr> states := (states st)(name \<mapsto> newState),
                          globalMutationMap := globalMutationMap st ++ mutationMap,
                          versions := (versions st)(name \<mapsto> newState) \<rparr>)))"

definition sync_patches :: "SyncEnv \<Rightarrow> string \<Rightarrow> Decoded \<Rightarrow> Resync \<Rightarrow> SyncError option \<times> Resync" where
  "sync_patches env name d st =
     (if patches d \<noteq> []
      then (case decodePatches env name (patches d) (states st name) (initialVersionMap st name)
                   (macVerification_patch env) of
              Inl error \<Rightarrow> (Some error, st)
            | Inr (newState, mutationMap) \<Rightarrow>
                (None, st\<lparr> versions := (versions st)(name \<mapsto> newState),
                           initialVersionMap := (initialVersionMap st)(name \<mapsto> version newState),
                           globalMutationMap := globalMutationMap st ++ mutationMap \<rparr>))
      else (None, st))"

definition try_sync :: "SyncEnv \<Rightarrow> string \<Rightarrow> Decoded \<Rightarrow> Resync \<Rightarrow> SyncError option \<times> Resync" where
  "try_sync env name d st =
     (case sync_snapshot env name d st of
        (Some error, st1) \<Rightarrow> (Some error, st1)
      | (None, st1) \<Rightarrow>
          (case sync_patches env name d st1 of
             (Some error, st2) \<Rightarrow> (Some error, st2)
           | (None, st2) \<Rightarrow>
               (None, if hasMorePatches d then st2
                      else st2\<lparr> collectionsToHandle := removeAll name (collectionsToHandle st2) \<rparr>)))"

text \<open>
  The catch block. \<open>attemptsMap[name]! >= MAX_SYNC_ATTEMPTS\<close> is false while
  \<open>attemptsMap[name]\<close> is undefined.
\<close>

definition isIrrecoverableError :: "nat option \<Rightarrow> SyncError \<Rightarrow> bool" where
  "isIrrecoverableError attempts error =
     ((case attempts of None \<Rightarrow> False | Some n \<Rightarrow> n \<ge> MAX_SYNC_ATTEMPTS)
      \<or> output_statusCode error = Some 404
      \<or> error_name error = ''TypeError'')"

definition catch_sync :: "string \<Rightarrow> SyncError \<Rightarrow> Resync \<Rightarrow> Resync" where
  "catch_sync name error st =
     (let irrecoverable = isIrrecoverableError (attemptsMap st name) error;
          st1 = st\<lparr> versions := (versions st)(name := None),
                    attemptsMap := (attemptsMap st)
                      (name \<mapsto> (case attemptsMap st name of None \<Rightarrow> 0 | Some n \<Rightarrow> n) + 1) \<rparr>
      in if irrecoverable
         then st1\<lparr> collectionsToHandle := removeAll name (collectionsToHandle st1) \<rparr>
         else st1)"

text \<open>The body of \<open>for(const key in decoded)\<close>.\<close>

definition handle_collection :: "SyncEnv \<Rightarrow> string \<times> Decoded \<Rightarrow> Resync \<Rightarrow> Resync" where
  "handle_collection env nd st =
     (case try_sync env (fst nd) (snd nd) st of
        (None, st') \<Rightarrow> st'
      | (Some error, st') \<Rightarrow> catch_sync (fst nd) error st')"

text \<open>
  One pass of the while loop. The reply of the server, as decoded by
  \<open>extractSyncdPatches\<close>, is the input \<open>decoded\<close>: an object, so a list of entries with
  distinct keys.
\<close>

definition sync_round :: "SyncEnv \<Rightarrow> (string \<times> Decoded) list \<Rightarrow> Resync \<Rightarrow> Resync" where
  "sync_round env decoded st =
     (let (st1, nodes) = fold (load_state env) (collectionsToHandle st) (st\<lparr> states := Map.empty \<rparr>, [])
      in fold (handle_collection env) decoded (st1\<lparr> sent := sent st1 @ [nodes] \<rparr>))"

text \<open>
  The while loop, run against the replies the server gives in turn. \<open>None\<close>: the
  collections are not all handled when the listed replies are used up.
\<close>

fun sync_loop :: "SyncEnv \<Rightarrow> (string \<times> Decoded) list list \<Rightarrow> Resync \<Rightarrow> Resync option" where
  "sync_loop env replies st =
     (if collectionsToHandle st = [] then Some st
      else case replies of
        [] \<Rightarrow> None
      | decoded # rest \<Rightarrow> sync_loop env rest (sync_round env decoded st))"

text \<open>
  \<open>new Set(xs)\<close>, as the list of its members in insertion order: the first occurrence
  of each member stays.
\<close>

definition js_set :: "'a list \<Rightarrow> 'a list" where
  "js_set xs = fold (\<lambda>x acc. if x \<in> set acc then acc else acc @ [x]) xs []"

text \<open>The state at the start of the transaction: \<open>new Set(collections)\<close>, empty maps.\<close>

definition resync_start :: "(string \<rightharpoonup> LTHashState) \<Rightarrow> string list \<Rightarrow> Resync" where
  "resync_start store collections =
     \<lparr> versions = store, collectionsToHandle = js_set collections, attemptsMap = Map.empty,
       initialVersionMap = Map.empty, globalMutationMap = Map.empty, states = Map.empty,
       sent = [] \<rparr>"

text \<open>
  A reply in which the collection \<open>name\<close> comes with patches and no snapshot, and an
  environment in which decoding the patches of \<open>name\<close> throws \<open>error\<close> under patch MAC
  verification, whatever the patches and the state.
\<close>

definition reply_with_patches :: "string \<Rightarrow> (string \<times> Decoded) list \<Rightarrow> bool" where
  "reply_with_patches name decoded =
     (distinct (map fst decoded)
      \<and> (case map_of decoded name of
            None \<Rightarrow> False
          | Some d \<Rightarrow> snapshot d = None \<and> patches d \<noteq> []))"

definition patches_rejected :: "SyncEnv \<Rightarrow> string \<Rightarrow> SyncError \<Rightarrow> bool" where
  "patches_rejected env name error =
     (macVerification_patch env
      \<and> (\<forall>ps state initialVersion. decodePatches env name ps state initialVersion True = Inl error))"

text \<open>
  An example: two collections are synced from scratch; every patch of \<open>regular\<close> has a
  tampered MAC, which \<open>decodePatches\<close> rejects when it verifies; the patches of other
  collections decode.
\<close>

definition invalid_patch_mac :: SyncError where
  "invalid_patch_mac = \<lparr> output_statusCode = Some 500, error_name = ''Error'' \<rparr>"

definition tampered_env :: SyncEnv where
  "tampered_env =
     \<lparr> decodeSyncdSnapshot =
         (\<lambda>name snap initialVersion verify.
            Inr (\<lparr> version = 1, hash = [], indexValueMap = [] \<rparr>, Map.empty)),
       decodePatches =
         (\<lambda>name ps state initialVersion verify.
            if name = ''regular'' \<and> verify then Inl invalid_patch_mac
            else Inr (\<lparr> version = (case state of None \<Rightarrow> 0 | Some s \<Rightarrow> version s) + length ps,
                        hash = [], indexValueMap = [] \<rparr>, Map.empty)),
       newLTHashState = \<lparr> version = 0, hash = [], indexValueMap = [] \<rparr>,
       macVerification_snapshot = True,
       macVerification_patch = True \<rparr>"

definition tampered_reply :: "(string \<times> Decoded) list" where
  "tampered_reply =
     [(''regular'', \<lparr> patches = [''tampered''], hasMorePatches = False, snapshot = None \<rparr>),
      (''critical_block'', \<lparr> patches = [''p1'', ''p2''], hasMorePatches = False, snapshot = None \<rparr>)]"

definition tampered_retry :: "(string \<times> Decoded) list" where
  "tampered_retry =
     [(''regular'', \<lparr> patches = [''tampered''], hasMorePatches = False, snapshot = None \<rparr>)]"

definition tampered_start :: Resync where
  "tampered_start = resync_start Map.empty [''regular'', ''critical_block'']"

section \<open>Device discovery and message relay (src/Utils/signal.ts, src/Socket/messages-send.ts)\<close>

subsection \<open>Binary nodes and JIDs\<close>

text \<open>
  A \<open>BinaryNode\<close> is \<open>{tag, attrs, content}\<close>; the content is absent, a byte string or
  a list of nodes. An attribute object is an association list in insertion order.
\<close>

datatype BinaryNode =
  BinaryNode (tag: string) (attrs: "(string \<times> string) list") (content: NodeContent)
and NodeContent =
  Absent | Binary string | Children "BinaryNode list"

fun set_attr :: "string \<Rightarrow> string \<Rightarrow> (string \<times> string) list \<Rightarrow> (string \<times> string) list" where
  "set_attr k v [] = [(k, v)]"
| "set_attr k v (kv # rest) = (if fst kv = k then (k, v) # rest else kv # set_attr k v rest)"

text \<open>Object spread \<open>{...base, ...extra}\<close>.\<close>

definition spread :: "(string \<times> string) list \<Rightarrow> (string \<times> string) list \<Rightarrow> (string \<times> string) list" where
  "spread base extra = fold (\<lambda>kv acc. set_attr (fst kv) (snd kv) acc) extra base"

definition attr :: "BinaryNode \<Rightarrow> string \<Rightarrow> string option" where
  "attr node k = map_of (attrs node) k"

text \<open>
  A JavaScript number that names a device: \<open>NaN\<close> or an integer. \<open>a !== b\<close> on two
  values that are numbers or undefined; \<open>NaN\<close> differs from everything, itself included.
\<close>

datatype jsnumber = NaN | Num int

definition strict_neq :: "jsnumber option \<Rightarrow> jsnumber option \<Rightarrow> bool" where
  "strict_neq a b = (a \<noteq> b \<or> a = Some NaN)"

record JidWithDevice =
  user :: string
  device :: "jsnumber option"

record FullJid = JidWithDevice +
  server :: string

text \<open>Truthiness of a string that may be undefined: defined and not empty.\<close>

definition truthy :: "string option \<Rightarrow> bool" where
  "truthy v = (case v of None \<Rightarrow> False | Some x \<Rightarrow> x \<noteq> [])"

subsection \<open>Messages\<close>

text \<open>
  The fields of \<open>proto.IMessage\<close> that the relay inspects. A field that is a message
  with an inspected flag is an option of that flag; \<open>listMessage\<close> carries its
  \<open>listType\<close>, a number that may be missing; \<open>otherFields\<close> stands for the rest.
\<close>

record IMessage =
  imageMessage :: bool
  videoMessage :: "bool option"
  audioMessage :: "bool option"
  contactMessage :: bool
  documentMessage :: bool
  contactsArrayMessage :: bool
  liveLocationMessage :: bool
  stickerMessage :: bool
  listMessage :: "nat option option"
  listResponseMessage :: bool
  buttonsResponseMessage :: bool
  orderMessage :: bool
  productMessage :: bool
  interactiveResponseMessage :: bool
  buttonsMessage :: bool
  templateMessage :: bool
  otherFields :: string

text \<open>
  What is handed to the encoder: the message itself, the message wrapped for the
  sender's own devices (\<open>deviceSentMessage {destinationJid, message}\<close>), or a sender-key
  distribution (\<open>axolotlSenderKeyDistributionMessage\<close>, \<open>groupId\<close>).
\<close>

datatype WAMessage =
  Plain IMessage
  | DeviceSentMessage string IMessage
  | SenderKeyDistributionMessage string string

definition getMediaType :: "IMessage \<Rightarrow> string option" where
  "getMediaType m =
     (if imageMessage m then Some ''image''
      else if videoMessage m \<noteq> None
        then (if videoMessage m = Some True then Some ''gif'' else Some ''video'')
      else if audioMessage m \<noteq> None
        then (if audioMessage m = Some True then Some ''ptt'' else Some ''audio'')
      else if contactMessage m then Some ''vcard''
      else if documentMessage m then Some ''document''
      else if contactsArrayMessage m then Some ''contact_array''
      else if liveLocationMessage m then Some ''livelocation''
      else if stickerMessage m then Some ''sticker''
      else if listMessage m \<noteq> None then Some ''list''
      else if listResponseMessage m then Some ''list_response''
      else if buttonsResponseMessage m then Some ''buttons_response''
      else if orderMessage m then Some ''order''
      else if productMessage m then Some ''product''
      else if interactiveResponseMessage m then Some ''native_flow_response''
      else None)"

definition getButtonType :: "IMessage \<Rightarrow> string option" where
  "getButtonType m =
     (if buttonsMessage m then Some ''buttons''
      else if buttonsResponseMessage m then Some ''buttons_response''
      else if interactiveResponseMessage m then Some ''interactive_response''
      else if listMessage m \<noteq> None then Some ''list''
      else if listResponseMessage m then Some ''list_response''
      else None)"

text \<open>
  What the relay can throw: a type error on an undefined value, a \<open>Boom\<close> of its own,
  a query that rejects, a reply that \<open>assertNodeErrorFree\<close> refuses.
\<close>

datatype RelayError = TypeError | BoomError string | QueryFailed | NodeError

subsection \<open>The collaborators\<close>

text \<open>
  Everything the relay calls that is not under src/ is a parameter:
  the JID helpers and node helpers of WABinary, unary plus on an attribute
  (\<open>toNumber\<close>), the reply of the server to a query (\<open>None\<close>: the query rejects), the
  group metadata query (the ids of the participants), the hook
  \<open>patchMessageBeforeSending\<close>, the encoder, the Signal repository
  (\<open>encryptMessage jid data\<close> gives type and ciphertext,
  \<open>encryptGroupMessage group data meId\<close> gives ciphertext and sender-key distribution
  message), the lookup in the \<open>session\<close> namespace, the encoded signed device identity of
  the account, the name of a list type in lower case, \<open>generateMessageID\<close> and the text of
  a message tag for a value of the epoch counter. \<open>meId\<close> is \<open>authState.creds.me.id\<close>,
  \<open>S_WHATSAPP_NET\<close> the constant of that name.
\<close>

record RelayEnv =
  meId :: string
  S_WHATSAPP_NET :: string
  jidDecode :: "string option \<Rightarrow> FullJid option"
  jidEncode :: "string \<Rightarrow> string \<Rightarrow> jsnumber option \<Rightarrow> string"
  jidNormalizedUser :: "string \<Rightarrow> string"
  isJidGroup :: "string \<Rightarrow> bool"
  areJidsSameUser :: "string \<Rightarrow> string \<Rightarrow> bool"
  getBinaryNodeChild :: "BinaryNode option \<Rightarrow> string \<Rightarrow> BinaryNode option"
  getBinaryNodeChildren :: "BinaryNode option \<Rightarrow> string \<Rightarrow> BinaryNode list"
  assertNodeErrorFree :: "BinaryNode \<Rightarrow> bool"
  toNumber :: "string option \<Rightarrow> jsnumber"
  server_reply :: "BinaryNode \<Rightarrow> BinaryNode option"
  groupMetadata :: "string \<Rightarrow> string list"
  patchMessageBeforeSending :: "WAMessage \<Rightarrow> string list \<Rightarrow> WAMessage"
  encodeWAMessage :: "WAMessage \<Rightarrow> string"
  encryptMessage :: "string \<Rightarrow> string \<Rightarrow> string \<times> string"
  encryptGroupMessage :: "string \<Rightarrow> string \<Rightarrow> string \<Rightarrow> string \<times> string"
  hasSession :: "string \<Rightarrow> bool"
  encodeSignedDeviceIdentity :: string
  listTypeName :: "nat \<Rightarrow> string"
  generateMessageID :: string
  messageTag :: "nat \<Rightarrow> string"

text \<open>
  The state the relay works on: the user devices cache (an entry that has expired is
  absent), the \<open>sender-key-memory\<close> namespace of the key store, the epoch counter of
  \<open>generateMessageTag\<close>, whether the WebSocket is open, the queries sent and the nodes
  sent with \<open>sendNode\<close>, oldest first.
\<close>

record RelayState =
  userDevicesCache :: "string \<rightharpoonup> JidWithDevice list"
  senderKeyMemory :: "string \<rightharpoonup> (string \<rightharpoonup> bool)"
  epoch :: nat
  wsOpen :: bool
  queries :: "BinaryNode list"
  sentNodes :: "BinaryNode list"

text \<open>
  \<open>query\<close> of the socket: a node without \<open>id\<close> gets the next message tag; the node is
  sent, which throws when the WebSocket is not open; the reply of the server is the result.
\<close>

definition query :: "RelayEnv \<Rightarrow> BinaryNode \<Rightarrow> RelayState \<Rightarrow> RelayError + (BinaryNode \<times> RelayState)" where
  "query env node s =
     (let tagged = (if truthy (attr node ''id'') then (node, s)
                    else (BinaryNode (tag node) (set_attr ''id'' (messageTag env (epoch s)) (attrs node))
                            (content node),
                          s\<lparr> epoch := epoch s + 1 \<rparr>));
          s' = (snd tagged)\<lparr> queries := queries (snd tagged) @ [fst tagged] \<rparr>
      in if \<not> wsOpen s then Inl (BoomError ''Connection Closed'')
         else case server_reply env (fst tagged) of
           None \<Rightarrow> Inl QueryFailed
         | Some result \<Rightarrow> Inr (result, s'))"

subsection \<open>\<open>extractDeviceJids\<close>\<close>

text \<open>Running a loop body that may throw over a list, collecting what it pushes.\<close>

fun collect :: "('a \<Rightarrow> RelayError + 'b list) \<Rightarrow> 'a list \<Rightarrow> RelayError + 'b list" where
  "collect f [] = Inr []"
| "collect f (x # xs) =
     (case f x of
        Inl e \<Rightarrow> Inl e
      | Inr ys \<Rightarrow> (case collect f xs of Inl e \<Rightarrow> Inl e | Inr zs \<Rightarrow> Inr (ys @ zs)))"

text \<open>The condition under which a child of the device list is extracted.\<close>

definition device_wanted ::
  "RelayEnv \<Rightarrow> bool \<Rightarrow> string \<Rightarrow> jsnumber option \<Rightarrow> string \<Rightarrow> BinaryNode \<Rightarrow> bool" where
  "device_wanted env excludeZeroDevices myUser myDevice usr d =
     (let dev = toNumber env (attr d ''id'')
      in tag d = ''device''
       \<and> (\<not> excludeZeroDevices \<or> dev \<noteq> Num 0)
       \<and> (myUser \<noteq> usr \<or> strict_neq myDevice (Some dev))
       \<and> (dev = Num 0 \<or> truthy (attr d ''key-index'')))"

definition extract_item ::
  "RelayEnv \<Rightarrow> bool \<Rightarrow> string \<Rightarrow> jsnumber option \<Rightarrow> BinaryNode \<Rightarrow> RelayError + JidWithDevice list" where
  "extract_item env excludeZeroDevices myUser myDevice item =
     (case jidDecode env (attr item ''jid'') of
        None \<Rightarrow> Inl TypeError
      | Some decoded \<Rightarrow>
          (let devicesNode = getBinaryNodeChild env (Some item) ''devices'';
               deviceListNode = getBinaryNodeChild env devicesNode ''device-list''
           in case map_option content deviceListNode of
                Some (Children ds) \<Rightarrow>
                  Inr (map (\<lambda>d. \<lparr> user = user decoded,
                                   device = Some (toNumber env (attr d ''id'')) \<rparr>)
                         (filter (device_wanted env excludeZeroDevices myUser myDevice (user decoded)) ds))
              | _ \<Rightarrow> Inr []))"

definition extract_node ::
  "RelayEnv \<Rightarrow> bool \<Rightarrow> string \<Rightarrow> jsnumber option \<Rightarrow> BinaryNode \<Rightarrow> RelayError + JidWithDevice list" where
  "extract_node env excludeZeroDevices myUser myDevice node =
     (case map_option content (getBinaryNodeChild env (Some node) ''list'') of
        Some (Children items) \<Rightarrow> collect (extract_item env excludeZeroDevices myUser myDevice) items
      | _ \<Rightarrow> Inr [])"

text \<open>
  \<open>result.content\<close> is iterated as an array of nodes: absent content is a type error,
  the bytes of a binary content have no children and give nothing.
\<close>

definition extractDeviceJids ::
  "RelayEnv \<Rightarrow> BinaryNode \<Rightarrow> string \<Rightarrow> bool \<Rightarrow> RelayError + JidWithDevice list" where
  "extractDeviceJids env result myJid excludeZeroDevices =
     (case jidDecode env (Some myJid) of
        None \<Rightarrow> Inl TypeError
      | Some me \<Rightarrow>
          (case content result of
             Absent \<Rightarrow> Inl TypeError
           | Binary _ \<Rightarrow> Inr []
           | Children nodes \<Rightarrow>
               collect (extract_node env excludeZeroDevices (user me) (device me)) nodes))"

subsection \<open>\<open>getUSyncDevices\<close>, \<open>assertSessions\<close>, \<open>createParticipantNodes\<close>\<close>

text \<open>The first loop of \<open>getUSyncDevices\<close>: cached devices are taken, other users are listed.\<close>

definition usync_lookup ::
  "RelayEnv \<Rightarrow> bool \<Rightarrow> RelayState \<Rightarrow> string
     \<Rightarrow> JidWithDevice list \<times> BinaryNode list \<Rightarrow> JidWithDevice list \<times> BinaryNode list" where
  "usync_lookup env useCache s jid acc =
     (let usr = map_option user (jidDecode env (Some jid));
          jid' = jidNormalizedUser env jid;
          devices = (case usr of None \<Rightarrow> None | Some u \<Rightarrow> userDevicesCache s u)
      in case devices of
           Some ds \<Rightarrow>
             (if useCache then (fst acc @ ds, snd acc)
              else (fst acc, snd acc @ [BinaryNode ''user'' [(''jid'', jid')] Absent]))
         | None \<Rightarrow> (fst acc, snd acc @ [BinaryNode ''user'' [(''jid'', jid')] Absent]))"

definition usync_iq :: "RelayEnv \<Rightarrow> string \<Rightarrow> BinaryNode list \<Rightarrow> BinaryNode" where
  "usync_iq env sid users =
     BinaryNode ''iq'' [(''to'', S_WHATSAPP_NET env), (''type'', ''get''), (''xmlns'', ''usync'')]
       (Children
         [BinaryNode ''usync''
            [(''sid'', sid), (''mode'', ''query''), (''last'', ''true''), (''index'', ''0''),
             (''context'', ''message'')]
            (Children
              [BinaryNode ''query'' []
                 (Children [BinaryNode ''devices'' [(''version'', ''2'')] Absent]),
               BinaryNode ''list'' [] (Children users)])])"

text \<open>\<open>deviceMap\<close>: the extracted devices grouped by user, in the order extracted.\<close>

definition deviceMap_of :: "JidWithDevice list \<Rightarrow> (string \<rightharpoonup> JidWithDevice list)" where
  "deviceMap_of extracted =
     fold (\<lambda>item m. m(user item \<mapsto> (case m (user item) of None \<Rightarrow> [] | Some l \<Rightarrow> l) @ [item]))
       extracted Map.empty"

definition getUSyncDevices ::
  "RelayEnv \<Rightarrow> string list \<Rightarrow> bool \<Rightarrow> bool \<Rightarrow> RelayState
     \<Rightarrow> RelayError + (JidWithDevice list \<times> RelayState)" where
  "getUSyncDevices env jids useCache ignoreZeroDevices s =
     (let looked = fold (usync_lookup env useCache s) (js_set jids) ([], []);
          sid = messageTag env (epoch s);
          s1 = s\<lparr> epoch := epoch s + 1 \<rparr>
      in case query env (usync_iq env sid (snd looked)) s1 of
           Inl e \<Rightarrow> Inl e
         | Inr (result, s2) \<Rightarrow>
             (case extractDeviceJids env result (meId env) ignoreZeroDevices of
                Inl e \<Rightarrow> Inl e
              | Inr extracted \<Rightarrow>
                  Inr (fst looked @ extracted,
                       s2\<lparr> userDevicesCache := userDevicesCache s2 ++ deviceMap_of extracted \<rparr>)))"

text \<open>
  \<open>assertSessions\<close>. The sessions that \<open>parseAndInjectE2ESessions\<close> injects go to the
  Signal repository, which is opaque here; its check of the user nodes can throw.
\<close>

definition assertSessions ::
  "RelayEnv \<Rightarrow> string list \<Rightarrow> bool \<Rightarrow> RelayState \<Rightarrow> RelayError + (bool \<times> RelayState)" where
  "assertSessions env jids force s =
     (let jidsRequiringFetch = (if force then jids else filter (\<lambda>jid. \<not> hasSession env jid) jids)
      in if jidsRequiringFetch \<noteq> []
         then (case query env
                      (BinaryNode ''iq''
                         [(''xmlns'', ''encrypt''), (''type'', ''get''), (''to'', S_WHATSAPP_NET env)]
                         (Children
                           [BinaryNode ''key'' []
                              (Children (map (\<lambda>jid. BinaryNode ''user'' [(''jid'', jid)] Absent)
                                           jidsRequiringFetch))])) s of
                 Inl e \<Rightarrow> Inl e
               | Inr (result, s') \<Rightarrow>
                   (if list_all (assertNodeErrorFree env)
                         (getBinaryNodeChildren env (getBinaryNodeChild env (Some result) ''list'')
                            ''user'')
                    then Inr (True, s')
                    else Inl NodeError))
         else Inr (False, s))"

text \<open>
  \<open>createParticipantNodes\<close>: one \<open>to\<close> node per jid, and whether any encryption
  gave the type \<open>pkmsg\<close>.
\<close>

definition participant_node :: "RelayEnv \<Rightarrow> string \<Rightarrow> (string \<times> string) list \<Rightarrow> string \<Rightarrow> BinaryNode" where
  "participant_node env bytes extraAttrs jid =
     (let enc = encryptMessage env jid bytes
      in BinaryNode ''to'' [(''jid'', jid)]
           (Children
             [BinaryNode ''enc'' (spread [(''v'', ''2''), (''type'', fst enc)] extraAttrs)
                (Binary (snd enc))]))"

definition createParticipantNodes ::
  "RelayEnv \<Rightarrow> string list \<Rightarrow> WAMessage \<Rightarrow> (string \<times> string) list option
     \<Rightarrow> BinaryNode list \<times> bool" where
  "createParticipantNodes env jids msg extraAttrs =
     (let patched = patchMessageBeforeSending env msg jids;
          bytes = encodeWAMessage env patched
      in (map (participant_node env bytes (case extraAttrs of None \<Rightarrow> [] | Some a \<Rightarrow> a)) jids,
          list_ex (\<lambda>jid. fst (encryptMessage env jid bytes) = ''pkmsg'') jids))"

subsection \<open>\<open>relayMessage\<close>\<close>

text \<open>
  The options of a relay. \<open>participant\<close> is \<open>participant.jid\<close> when a participant is
  given; \<open>cachedGroupMetadata\<close> gives the ids of the participants of a group it knows.
\<close>

record MessageRelayOptions =
  messageId :: "string option"
  participant :: "string option"
  additionalAttributes :: "(string \<times> string) list option"
  useUserDevicesCache :: "bool option"
  cachedGroupMetadata :: "(string \<Rightarrow> string list option) option"

definition getButtonArgs :: "RelayEnv \<Rightarrow> IMessage \<Rightarrow> RelayError + (string \<times> string) list" where
  "getButtonArgs env m =
     (if templateMessage m then Inr []
      else case listMessage m of
        Some listType \<Rightarrow>
          (case listType of
             None \<Rightarrow> Inl (BoomError ''Expected list type inside message'')
           | Some t \<Rightarrow>
               if t = 0 then Inl (BoomError ''Expected list type inside message'')
               else Inr [(''v'', ''2''), (''type'', listTypeName env t)])
      | None \<Rightarrow> Inr [])"

definition device_jid :: "RelayEnv \<Rightarrow> JidWithDevice \<Rightarrow> string" where
  "device_jid env d = jidEncode env (user d) ''s.whatsapp.net'' (device d)"

definition media_attrs :: "IMessage \<Rightarrow> (string \<times> string) list option" where
  "media_attrs m = map_option (\<lambda>mediaType. [(''mediatype'', mediaType)]) (getMediaType m)"

text \<open>
  The loop over the devices of a group: a device whose jid is not marked in
  \<open>senderKeyMap\<close>, or any device when a participant is given, is added to
  \<open>senderKeyJids\<close> and marked.
\<close>

definition sender_key_step ::
  "RelayEnv \<Rightarrow> bool \<Rightarrow> JidWithDevice \<Rightarrow> string list \<times> (string \<rightharpoonup> bool)
     \<Rightarrow> string list \<times> (string \<rightharpoonup> bool)" where
  "sender_key_step env hasParticipant d acc =
     (let jid = device_jid env d
      in if snd acc jid \<noteq> Some True \<or> hasParticipant
         then (fst acc @ [jid], (snd acc)(jid \<mapsto> True))
         else acc)"

text \<open>The devices of a group relay: the given ones, then those of the participants.\<close>

definition group_devices ::
  "RelayEnv \<Rightarrow> string \<Rightarrow> MessageRelayOptions \<Rightarrow> JidWithDevice list \<Rightarrow> RelayState
     \<Rightarrow> RelayError + (JidWithDevice list \<times> RelayState)" where
  "group_devices env jid opts devices s =
     (let cached = (case cachedGroupMetadata opts of None \<Rightarrow> None | Some f \<Rightarrow> f jid);
          participantsList = (case cached of Some ids \<Rightarrow> ids | None \<Rightarrow> groupMetadata env jid)
      in if participant opts = None
         then (case getUSyncDevices env participantsList (useUserDevicesCache opts \<noteq> Some False)
                      False s of
                 Inl e \<Rightarrow> Inl e
               | Inr (additionalDevices, s') \<Rightarrow> Inr (devices @ additionalDevices, s'))
         else Inr (devices, s))"

text \<open>
  The pieces of the group branch: the sender-key map loaded at the start (empty when a
  participant is given), the encrypted group payload, the loop over the devices and the
  sender-key distribution message.
\<close>

definition stored_sender_keys :: "MessageRelayOptions \<Rightarrow> RelayState \<Rightarrow> string \<Rightarrow> (string \<rightharpoonup> bool)" where
  "stored_sender_keys opts s jid =
     (if participant opts = None
      then (case senderKeyMemory s jid of None \<Rightarrow> Map.empty | Some m \<Rightarrow> m)
      else Map.empty)"

definition group_encrypted ::
  "RelayEnv \<Rightarrow> string \<Rightarrow> IMessage \<Rightarrow> JidWithDevice list \<Rightarrow> string \<times> string" where
  "group_encrypted env destinationJid msg devices =
     (let patched = patchMessageBeforeSending env (Plain msg) (map (device_jid env) devices);
          bytes = encodeWAMessage env patched
      in encryptGroupMessage env destinationJid bytes (meId env))"

definition sender_key_loop ::
  "RelayEnv \<Rightarrow> MessageRelayOptions \<Rightarrow> RelayState \<Rightarrow> string \<Rightarrow> JidWithDevice list
     \<Rightarrow> string list \<times> (string \<rightharpoonup> bool)" where
  "sender_key_loop env opts s jid devices =
     fold (sender_key_step env (participant opts \<noteq> None)) devices
       ([], stored_sender_keys opts s jid)"

definition sender_key_message ::
  "RelayEnv \<Rightarrow> string \<Rightarrow> IMessage \<Rightarrow> JidWithDevice list \<Rightarrow> WAMessage" where
  "sender_key_message env destinationJid msg devices =
     SenderKeyDistributionMessage (snd (group_encrypted env destinationJid msg devices))
       destinationJid"

definition skmsg_node :: "RelayEnv \<Rightarrow> string \<Rightarrow> IMessage \<Rightarrow> JidWithDevice list \<Rightarrow> BinaryNode" where
  "skmsg_node env destinationJid msg devices =
     BinaryNode ''enc'' [(''v'', ''2''), (''type'', ''skmsg'')]
       (Binary (fst (group_encrypted env destinationJid msg devices)))"

text \<open>
  The group branch of the transaction. It returns the participant nodes, the content
  pushed to the stanza, whether a device identity is needed, and the state.
\<close>

definition relay_group ::
  "RelayEnv \<Rightarrow> string \<Rightarrow> string \<Rightarrow> IMessage \<Rightarrow> MessageRelayOptions \<Rightarrow> JidWithDevice list
     \<Rightarrow> RelayState \<Rightarrow> RelayError + (BinaryNode list \<times> BinaryNode list \<times> bool \<times> RelayState)" where
  "relay_group env jid destinationJid msg opts devices0 s =
     (case group_devices env jid opts devices0 s of
        Inl e \<Rightarrow> Inl e
      | Inr (devices, s1) \<Rightarrow>
          (let senderKeyJids = fst (sender_key_loop env opts s jid devices);
               senderKeyMap = snd (sender_key_loop env opts s jid devices)
           in if senderKeyJids \<noteq> []
              then (case assertSessions env senderKeyJids False s1 of
                      Inl e \<Rightarrow> Inl e
                    | Inr (_, s2) \<Rightarrow>
                        (let result = createParticipantNodes env senderKeyJids
                                        (sender_key_message env destinationJid msg devices)
                                        (media_attrs msg)
                         in Inr (fst result, [skmsg_node env destinationJid msg devices], snd result,
                                 s2\<lparr> senderKeyMemory := (senderKeyMemory s2)(jid \<mapsto> senderKeyMap) \<rparr>)))
              else Inr ([], [skmsg_node env destinationJid msg devices], False,
                        s1\<lparr> senderKeyMemory := (senderKeyMemory s1)(jid \<mapsto> senderKeyMap) \<rparr>)))"

text \<open>The devices of a relay to a user: the given ones, then peer, me and those of USync.\<close>

definition direct_devices ::
  "RelayEnv \<Rightarrow> string \<Rightarrow> string \<Rightarrow> string \<Rightarrow> MessageRelayOptions \<Rightarrow> JidWithDevice list
     \<Rightarrow> RelayState \<Rightarrow> RelayError + (JidWithDevice list \<times> RelayState)" where
  "direct_devices env jid usr meUser opts devices s =
     (if participant opts = None
      then (case getUSyncDevices env [meId env, jid] (useUserDevicesCache opts \<noteq> Some False)
                   True s of
              Inl e \<Rightarrow> Inl e
            | Inr (additionalDevices, s') \<Rightarrow>
                Inr (devices @ [\<lparr> user = usr, device = None \<rparr>, \<lparr> user = meUser, device = None \<rparr>]
                       @ additionalDevices, s'))
      else Inr (devices, s))"

definition relay_direct ::
  "RelayEnv \<Rightarrow> string \<Rightarrow> string \<Rightarrow> string \<Rightarrow> IMessage \<Rightarrow> MessageRelayOptions
     \<Rightarrow> JidWithDevice list \<Rightarrow> RelayState
     \<Rightarrow> RelayError + (BinaryNode list \<times> BinaryNode list \<times> bool \<times> RelayState)" where
  "relay_direct env jid usr destinationJid msg opts devices0 s =
     (case jidDecode env (Some (meId env)) of
        None \<Rightarrow> Inl TypeError
      | Some me \<Rightarrow>
          (case direct_devices env jid usr (user me) opts devices0 s of
             Inl e \<Rightarrow> Inl e
           | Inr (devices, s1) \<Rightarrow>
               (let allJids = map (device_jid env) devices;
                    meJids = map (device_jid env) (filter (\<lambda>d. user d = user me) devices);
                    otherJids = map (device_jid env) (filter (\<lambda>d. user d \<noteq> user me) devices)
                in case assertSessions env allJids False s1 of
                     Inl e \<Rightarrow> Inl e
                   | Inr (_, s2) \<Rightarrow>
                       (let meResult = createParticipantNodes env meJids
                                         (DeviceSentMessage destinationJid msg) (media_attrs msg);
                            otherResult = createParticipantNodes env otherJids (Plain msg)
                                            (media_attrs msg)
                        in Inr (fst meResult @ fst otherResult, [],
                                snd meResult \<or> snd otherResult, s2)))))"

text \<open>The stanza, from the participant nodes and the content pushed so far.\<close>

definition stanza_attrs ::
  "RelayEnv \<Rightarrow> MessageRelayOptions \<Rightarrow> string \<Rightarrow> string \<Rightarrow> (string \<times> string) list option
     \<Rightarrow> (string \<times> string) list" where
  "stanza_attrs env opts msgId destinationJid additional =
     (let attrs0 = spread [(''id'', msgId), (''type'', ''text'')]
                     (case additional of None \<Rightarrow> [] | Some a \<Rightarrow> a)
      in case participant opts of
           Some pjid \<Rightarrow>
             (if isJidGroup env destinationJid
              then set_attr ''participant'' pjid (set_attr ''to'' destinationJid attrs0)
              else if areJidsSameUser env pjid (meId env)
              then set_attr ''recipient'' destinationJid (set_attr ''to'' pjid attrs0)
              else set_attr ''to'' pjid attrs0)
         | None \<Rightarrow> set_attr ''to'' destinationJid attrs0)"

definition assemble_stanza ::
  "RelayEnv \<Rightarrow> IMessage \<Rightarrow> MessageRelayOptions \<Rightarrow> string \<Rightarrow> string
     \<Rightarrow> (string \<times> string) list option \<Rightarrow> BinaryNode list \<Rightarrow> BinaryNode list \<Rightarrow> bool
     \<Rightarrow> RelayError + BinaryNode" where
  "assemble_stanza env msg opts msgId destinationJid additional participants binaryNodeContent
       shouldIncludeDeviceIdentity =
     (let content1 = binaryNodeContent
            @ (if participants \<noteq> []
               then [BinaryNode ''participants'' [] (Children participants)] else []);
          content2 = content1
            @ (if shouldIncludeDeviceIdentity
               then [BinaryNode ''device-identity'' [] (Binary (encodeSignedDeviceIdentity env))]
               else []);
          stanza_attrs = stanza_attrs env opts msgId destinationJid additional
      in case getButtonType msg of
           None \<Rightarrow> Inr (BinaryNode ''message'' stanza_attrs (Children content2))
         | Some buttonType \<Rightarrow>
             (case getButtonArgs env msg of
                Inl e \<Rightarrow> Inl e
              | Inr args \<Rightarrow>
                  Inr (BinaryNode ''message'' stanza_attrs
                         (Children
                           (content2
                            @ [BinaryNode ''biz'' [] (Children [BinaryNode buttonType args Absent])])))))"

text \<open>
  \<open>sendNode\<close> of the socket throws when the WebSocket is not open.
\<close>

definition sendNode :: "BinaryNode \<Rightarrow> RelayState \<Rightarrow> RelayError + RelayState" where
  "sendNode frame s =
     (if \<not> wsOpen s then Inl (BoomError ''Connection Closed'')
      else Inr (s\<lparr> sentNodes := sentNodes s @ [frame] \<rparr>))"

text \<open>The devices named by the options, before the transaction starts.\<close>

definition participant_devices ::
  "RelayEnv \<Rightarrow> MessageRelayOptions \<Rightarrow> RelayError + JidWithDevice list" where
  "participant_devices env opts =
     (case participant opts of
        None \<Rightarrow> Inr []
      | Some pjid \<Rightarrow>
          (case jidDecode env (Some pjid) of
             None \<Rightarrow> Inl TypeError
           | Some decoded \<Rightarrow> Inr [\<lparr> user = user decoded, device = device decoded \<rparr>]))"

text \<open>The values fixed before the transaction: message id, destination, attributes.\<close>

definition message_id_of :: "RelayEnv \<Rightarrow> MessageRelayOptions \<Rightarrow> string" where
  "message_id_of env opts =
     (case messageId opts of
        None \<Rightarrow> generateMessageID env
      | Some msgId \<Rightarrow> if msgId \<noteq> [] then msgId else generateMessageID env)"

definition destination_of :: "RelayEnv \<Rightarrow> FullJid \<Rightarrow> string" where
  "destination_of env decoded =
     jidEncode env (user decoded)
       (if server decoded = ''g.us'' then ''g.us'' else ''s.whatsapp.net'') None"

definition additional_of :: "MessageRelayOptions \<Rightarrow> bool \<Rightarrow> (string \<times> string) list option" where
  "additional_of opts isGroup =
     (if participant opts \<noteq> None \<and> \<not> isGroup
      then Some (spread (case additionalAttributes opts of None \<Rightarrow> [] | Some a \<Rightarrow> a)
                   [(''device_fanout'', ''false'')])
      else additionalAttributes opts)"

text \<open>
  The body of the transaction up to the stanza: the branch for a group or for a user,
  then the assembly.
\<close>

definition relay_stanza ::
  "RelayEnv \<Rightarrow> string \<Rightarrow> FullJid \<Rightarrow> IMessage \<Rightarrow> MessageRelayOptions \<Rightarrow> JidWithDevice list
     \<Rightarrow> RelayState \<Rightarrow> RelayError + (BinaryNode \<times> RelayState)" where
  "relay_stanza env jid decoded msg opts devices0 s =
     (let isGroup = (server decoded = ''g.us'');
          destinationJid = destination_of env decoded
      in case (if isGroup
               then relay_group env jid destinationJid msg opts devices0 s
               else relay_direct env jid (user decoded) destinationJid msg opts devices0 s) of
           Inl e \<Rightarrow> Inl e
         | Inr (participants, binaryNodeContent, shouldIncludeDeviceIdentity, s1) \<Rightarrow>
             (case assemble_stanza env msg opts (message_id_of env opts) destinationJid
                     (additional_of opts isGroup) participants binaryNodeContent
                     shouldIncludeDeviceIdentity of
                Inl e \<Rightarrow> Inl e
              | Inr stanza \<Rightarrow> Inr (stanza, s1)))"

text \<open>
  \<open>relayMessage\<close>. A relay that throws returns the error; one that completes returns the
  message id and the state, whose last sent node is the stanza.
\<close>

definition relayMessage ::
  "RelayEnv \<Rightarrow> string \<Rightarrow> IMessage \<Rightarrow> MessageRelayOptions \<Rightarrow> RelayState
     \<Rightarrow> RelayError + (string \<times> RelayState)" where
  "relayMessage env jid msg opts s =
     (case jidDecode env (Some jid) of
        None \<Rightarrow> Inl TypeError
      | Some decoded \<Rightarrow>
          (case participant_devices env opts of
             Inl e \<Rightarrow> Inl e
           | Inr devices0 \<Rightarrow>
               (case relay_stanza env jid decoded msg opts devices0 s of
                  Inl e \<Rightarrow> Inl e
                | Inr (stanza, s1) \<Rightarrow>
                    (case sendNode stanza s1 of
                       Inl e \<Rightarrow> Inl e
                     | Inr s2 \<Rightarrow> Inr (message_id_of env opts, s2)))))"

subsection \<open>Reading a stanza\<close>

definition children :: "BinaryNode \<Rightarrow> BinaryNode list" where
  "children node = (case content node of Children cs \<Rightarrow> cs | _ \<Rightarrow> [])"

text \<open>The per-device \<open>to\<close> nodes of a message stanza, and the jids they are addressed to.\<close>

definition to_nodes :: "BinaryNode \<Rightarrow> BinaryNode list" where
  "to_nodes stanza =
     filter (\<lambda>n. tag n = ''to'')
       (concat (map children (filter (\<lambda>n. tag n = ''participants'') (children stanza))))"

definition recipient_jids :: "BinaryNode \<Rightarrow> string list" where
  "recipient_jids stanza = List.map_filter (\<lambda>n. attr n ''jid'') (to_nodes stanza)"




text \<open>The queries of a state that are USync queries.\<close>

definition usync_queries :: "RelayState \<Rightarrow> BinaryNode list" where
  "usync_queries s = filter (\<lambda>n. attr n ''xmlns'' = Some ''usync'') (queries s)"

text \<open>The jids marked in the sender-key memory of a group.\<close>

definition sender_key_marked :: "RelayState \<Rightarrow> string \<Rightarrow> string set" where
  "sender_key_marked s gid =
     (case senderKeyMemory s gid of None \<Rightarrow> {} | Some m \<Rightarrow> {jid. m jid = Some True})"


text \<open>Every device that \<open>extractDeviceJids\<close> returns passed the test of the loop.\<close>

definition extracted_ok :: "RelayEnv \<Rightarrow> bool \<Rightarrow> FullJid \<Rightarrow> JidWithDevice \<Rightarrow> bool" where
  "extracted_ok env excludeZeroDevices me d =
     (\<exists>node. device_wanted env excludeZeroDevices (user me) (device me) (user d) node
             \<and> device d = Some (toNumber env (attr node ''id'')))"

text \<open>The devices taken from the cache by the first loop of \<open>getUSyncDevices\<close>.\<close>

definition cached_ok :: "bool \<Rightarrow> RelayState \<Rightarrow> JidWithDevice \<Rightarrow> bool" where
  "cached_ok useCache s d =
     (useCache \<and> (\<exists>u ds. userDevicesCache s u = Some ds \<and> d \<in> set ds))"

section \<open>An example environment for the relay\<close>

text \<open>
  A concrete instance of the collaborators, used to run the relay on explicit inputs. JIDs
  are written \<open>user@server\<close> or \<open>user:device@server\<close>; the decoder knows the JIDs of the
  examples. The server answers a USync query from a directory that lists, for a user jid,
  the ids of its devices, each with its key index if it has one.
\<close>

definition example_jids :: "(string \<times> FullJid) list" where
  "example_jids =
     [(''111@s.whatsapp.net'', \<lparr> user = ''111'', device = None, server = ''s.whatsapp.net'' \<rparr>),
      (''111:1@s.whatsapp.net'', \<lparr> user = ''111'', device = Some (Num 1), server = ''s.whatsapp.net'' \<rparr>),
      (''222@s.whatsapp.net'', \<lparr> user = ''222'', device = None, server = ''s.whatsapp.net'' \<rparr>),
      (''222:2@s.whatsapp.net'', \<lparr> user = ''222'', device = Some (Num 2), server = ''s.whatsapp.net'' \<rparr>),
      (''999@s.whatsapp.net'', \<lparr> user = ''999'', device = None, server = ''s.whatsapp.net'' \<rparr>),
      (''999:5@s.whatsapp.net'', \<lparr> user = ''999'', device = Some (Num 5), server = ''s.whatsapp.net'' \<rparr>),
      (''999:7@s.whatsapp.net'', \<lparr> user = ''999'', device = Some (Num 7), server = ''s.whatsapp.net'' \<rparr>),
      (''120363@g.us'', \<lparr> user = ''120363'', device = None, server = ''g.us'' \<rparr>)]"

definition example_jidDecode :: "string option \<Rightarrow> FullJid option" where
  "example_jidDecode j = (case j of None \<Rightarrow> None | Some x \<Rightarrow> map_of example_jids x)"

definition example_digits :: "(int \<times> string) list" where
  "example_digits =
     [(0, ''0''), (1, ''1''), (2, ''2''), (3, ''3''), (4, ''4''), (5, ''5''), (6, ''6''),
      (7, ''7''), (8, ''8''), (9, ''9'')]"

definition example_jidEncode :: "string \<Rightarrow> string \<Rightarrow> jsnumber option \<Rightarrow> string" where
  "example_jidEncode u srv dev =
     u @ (case dev of
            Some (Num n) \<Rightarrow>
              (if n = 0 then [] else '':'' @ (case map_of example_digits n of None \<Rightarrow> ''?'' | Some x \<Rightarrow> x))
          | _ \<Rightarrow> [])
       @ ''@'' @ srv"

definition example_toNumber :: "string option \<Rightarrow> jsnumber" where
  "example_toNumber v =
     (case v of
        None \<Rightarrow> NaN
      | Some x \<Rightarrow> (case map_of (map (\<lambda>p. (snd p, fst p)) example_digits) x of
                    None \<Rightarrow> NaN | Some n \<Rightarrow> Num n))"

definition example_child :: "BinaryNode option \<Rightarrow> string \<Rightarrow> BinaryNode option" where
  "example_child node t =
     (case node of None \<Rightarrow> None | Some n \<Rightarrow> find (\<lambda>c. tag c = t) (children n))"

definition example_children :: "BinaryNode option \<Rightarrow> string \<Rightarrow> BinaryNode list" where
  "example_children node t =
     (case node of None \<Rightarrow> [] | Some n \<Rightarrow> filter (\<lambda>c. tag c = t) (children n))"

text \<open>The reply to a USync query: one \<open>user\<close> item per user asked for.\<close>

definition example_device_node :: "string \<times> string option \<Rightarrow> BinaryNode" where
  "example_device_node d =
     BinaryNode ''device''
       ((''id'', fst d) # (case snd d of None \<Rightarrow> [] | Some k \<Rightarrow> [(''key-index'', k)])) Absent"

definition example_user_item ::
  "(string \<times> (string \<times> string option) list) list \<Rightarrow> BinaryNode \<Rightarrow> BinaryNode" where
  "example_user_item directory u =
     BinaryNode ''user'' [(''jid'', case attr u ''jid'' of None \<Rightarrow> [] | Some j \<Rightarrow> j)]
       (Children
         [BinaryNode ''devices'' []
            (Children
              [BinaryNode ''device-list'' []
                 (Children
                   (map example_device_node
                      (case map_of directory (case attr u ''jid'' of None \<Rightarrow> [] | Some j \<Rightarrow> j) of
                         None \<Rightarrow> [] | Some ds \<Rightarrow> ds)))])])"

definition example_reply ::
  "(string \<times> (string \<times> string option) list) list \<Rightarrow> BinaryNode \<Rightarrow> BinaryNode option" where
  "example_reply directory iq =
     (if attr iq ''xmlns'' = Some ''usync''
      then Some (BinaryNode ''iq'' [(''type'', ''result'')]
                  (Children
                    [BinaryNode ''usync'' []
                       (Children
                         [BinaryNode ''list'' []
                            (Children
                              (map (example_user_item directory)
                                 (example_children
                                    (example_child (example_child (Some iq) ''usync'') ''list'')
                                    ''user'')))])]))
      else Some (BinaryNode ''iq'' [(''type'', ''result'')]
                  (Children [BinaryNode ''list'' [] (Children [])])))"

definition example_encode :: "WAMessage \<Rightarrow> string" where
  "example_encode m =
     (case m of
        Plain x \<Rightarrow> otherFields x
      | DeviceSentMessage dest x \<Rightarrow> ''sent to '' @ dest @ '': '' @ otherFields x
      | SenderKeyDistributionMessage k g \<Rightarrow> ''key '' @ k @ '' of '' @ g)"

text \<open>
  The environment for the account \<open>999\<close> on its device 5, for a directory and the list
  of the jids with which a Signal session exists.
\<close>

definition example_env ::
  "(string \<times> (string \<times> string option) list) list \<Rightarrow> string list \<Rightarrow> RelayEnv" where
  "example_env directory sessions =
     \<lparr> meId = ''999:5@s.whatsapp.net'',
       S_WHATSAPP_NET = ''@s.whatsapp.net'',
       jidDecode = example_jidDecode,
       jidEncode = example_jidEncode,
       jidNormalizedUser =
         (\<lambda>j. case example_jidDecode (Some j) of
                 None \<Rightarrow> []
               | Some d \<Rightarrow> example_jidEncode (user d)
                             (if server d = ''c.us'' then ''s.whatsapp.net'' else server d) None),
       isJidGroup = (\<lambda>j. map_option server (example_jidDecode (Some j)) = Some ''g.us''),
       areJidsSameUser =
         (\<lambda>a b. map_option user (example_jidDecode (Some a))
                  = map_option user (example_jidDecode (Some b))),
       getBinaryNodeChild = example_child,
       getBinaryNodeChildren = example_children,
       assertNodeErrorFree = (\<lambda>n. \<not> list_ex (\<lambda>c. tag c = ''error'') (children n)),
       toNumber = example_toNumber,
       server_reply = example_reply directory,
       groupMetadata =
         (\<lambda>j. if j = ''120363@g.us'' then [''111@s.whatsapp.net'', ''222@s.whatsapp.net''] else []),
       patchMessageBeforeSending = (\<lambda>m jids. m),
       encodeWAMessage = example_encode,
       encryptMessage =
         (\<lambda>j bytes. (if j \<in> set sessions then ''msg'' else ''pkmsg'', ''to '' @ j @ '': '' @ bytes)),
       encryptGroupMessage = (\<lambda>g bytes me. (''group: '' @ bytes, ''sender key'')),
       hasSession = (\<lambda>j. j \<in> set sessions),
       encodeSignedDeviceIdentity = ''identity'',
       listTypeName = (\<lambda>t. if t = 1 then ''single_select'' else ''product_list''),
       generateMessageID = ''3EB0'',
       messageTag = (\<lambda>n. ''tag'' @ replicate n CHR ''+'') \<rparr>"

definition example_directory :: "(string \<times> (string \<times> string option) list) list" where
  "example_directory =
     [(''111@s.whatsapp.net'', [(''0'', None), (''1'', Some ''2'')]),
      (''222@s.whatsapp.net'', [(''0'', None)]),
      (''999@s.whatsapp.net'', [(''0'', None), (''5'', Some ''1''), (''7'', None)])]"

text \<open>The same directory after user \<open>222\<close> has linked a second device.\<close>

definition example_directory_later :: "(string \<times> (string \<times> string option) list) list" where
  "example_directory_later =
     [(''111@s.whatsapp.net'', [(''0'', None), (''1'', Some ''2'')]),
      (''222@s.whatsapp.net'', [(''0'', None), (''2'', Some ''1'')]),
      (''999@s.whatsapp.net'', [(''0'', None), (''5'', Some ''1''), (''7'', None)])]"

definition example_state :: RelayState where
  "example_state =
     \<lparr> userDevicesCache = Map.empty, senderKeyMemory = Map.empty, epoch = 1, wsOpen = True,
       queries = [], sentNodes = [] \<rparr>"

definition text_message :: IMessage where
  "text_message =
     \<lparr> imageMessage = False, videoMessage = None, audioMessage = None, contactMessage = False,
       documentMessage = False, contactsArrayMessage = False, liveLocationMessage = False,
       stickerMessage = False, listMessage = None, listResponseMessage = False,
       buttonsResponseMessage = False, orderMessage = False, productMessage = False,
       interactiveResponseMessage = False, buttonsMessage = False, templateMessage = False,
       otherFields = ''hello'' \<rparr>"

definition plain_options :: MessageRelayOptions where
  "plain_options =
     \<lparr> messageId = None, participant = None, additionalAttributes = None,
       useUserDevicesCache = None, cachedGroupMetadata = None \<rparr>"

definition uncached_options :: MessageRelayOptions where
  "uncached_options = plain_options\<lparr> useUserDevicesCache := Some False \<rparr>"

definition retry_options :: "string \<Rightarrow> MessageRelayOptions" where
  "retry_options pjid = plain_options\<lparr> messageId := Some ''3EB0'', participant := Some pjid \<rparr>"

text \<open>
  Three sends to the group \<open>120363@g.us\<close>, one after the other: two while the directory is
  as at first, the third, without the devices cache, after user \<open>222\<close> has linked a
  device.
\<close>

definition group_send_1 :: "RelayError + (string \<times> RelayState)" where
  "group_send_1 =
     relayMessage (example_env example_directory []) ''120363@g.us'' text_message plain_options
       example_state"

definition group_send_2 :: "RelayError + (string \<times> RelayState)" where
  "group_send_2 =
     relayMessage (example_env example_directory []) ''120363@g.us'' text_message plain_options
       (snd (projr group_send_1))"

definition group_send_3 :: "RelayError + (string \<times> RelayState)" where
  "group_send_3 =
     relayMessage (example_env example_directory_later []) ''120363@g.us'' text_message
       uncached_options (snd (projr group_send_2))"

text \<open>A retry for device 1 of user \<open>111\<close> in the group, after the first send.\<close>

definition group_retry :: "RelayError + (string \<times> RelayState)" where
  "group_retry =
     relayMessage (example_env example_directory []) ''120363@g.us'' text_message
       (retry_options ''111:1@s.whatsapp.net'') (snd (projr group_send_1))"

text \<open>A retry for device 1 of user \<open>111\<close> in the chat with that user.\<close>

definition direct_retry :: "RelayError + (string \<times> RelayState)" where
  "direct_retry =
     relayMessage (example_env example_directory []) ''111@s.whatsapp.net'' text_message
       (retry_options ''111:1@s.whatsapp.net'') example_state"

text \<open>
  A message to user \<open>111\<close>, first when no Signal session exists, then when sessions
  exist with every recipient.
\<close>

definition direct_send_new :: "RelayError + (string \<times> RelayState)" where
  "direct_send_new =
     relayMessage (example_env example_directory []) ''111@s.whatsapp.net'' text_message
       plain_options example_state"


text \<open>A message of the account to its own number.\<close>

definition self_send :: "RelayError + (string \<times> RelayState)" where
  "self_send =
     relayMessage (example_env example_directory []) ''999@s.whatsapp.net'' text_message
       plain_options example_state"

section \<open>Properties of the pre-key functions\<close>







text \<open>
  C7. The invariant \<open>firstUnuploadedPreKeyId \<le> nextPreKeyId\<close> is preserved by the
  counter update of \<open>getNextPreKeys\<close>: for every creds record that satisfies it and every
  count \<open>\<ge> 1\<close>, the creds with the update assigned satisfy it again.
\<close>

theorem getNextPreKeys_preserves_invariant:
  assumes "creds_invariant creds" and "1 \<le> count"
  shows "creds_invariant (assign_creds creds (npk_update (getNextPreKeys gen creds keys count)))"
  using assms
  by (simp add: creds_invariant_def assign_creds_def getNextPreKeys_def Let_def
      generateOrGetPreKeys_def)

theorem getNextPreKeys_preserves_invariant_witness:
  "creds_invariant \<lparr> nextPreKeyId = 5, firstUnuploadedPreKeyId = 3 \<rparr>
   \<and> (1::int) \<le> 4
   \<and> creds_invariant
       (assign_creds \<lparr> nextPreKeyId = 5, firstUnuploadedPreKeyId = 3 \<rparr>
          (npk_update (getNextPreKeys (\<lambda>i. \<lparr> kp_private = ''k'', kp_public = ''K'' \<rparr>)
             \<lparr> nextPreKeyId = 5, firstUnuploadedPreKeyId = 3 \<rparr> Map.empty 4)))"
proof -
  have a: "creds_invariant \<lparr> nextPreKeyId = 5, firstUnuploadedPreKeyId = 3 \<rparr>"
    by (simp add: creds_invariant_def)
  have b: "(1::int) \<le> 4" by simp
  show ?thesis
    using a b getNextPreKeys_preserves_invariant [OF a b] by blast
qed

section \<open>Properties of \<open>end\<close> and of the QR rotation\<close>

subsection \<open>Closing\<close>

lemma end_sock_closed: "closed (end_sock error now s)"
  by (simp add: end_sock_def)

lemma end_sock_when_closed: "closed s \<Longrightarrow> end_sock error now s = s"
  by (simp add: end_sock_def)

lemma end_calls_when_closed: "closed s \<Longrightarrow> end_calls calls s = s"
  by (induction calls arbitrary: s) (auto simp: end_sock_when_closed)

text \<open>
  C9. \<open>end\<close> is idempotent in what it does: for every sequence of \<open>N \<ge> 1\<close> calls,
  with any error arguments, on a socket that is not closed, exactly one
  \<open>connection.update\<close> event with connection \<open>close\<close> is emitted, carrying the error and
  date of the first call, and the resulting state is the state after the first call; a call
  on a closed socket leaves the state unchanged.
\<close>

theorem end_idempotent:
  assumes "\<not> closed s" and "calls \<noteq> []"
  shows "end_calls calls s = end_sock (fst (hd calls)) (snd (hd calls)) s
       \<and> emitted (end_calls calls s) =
           emitted s @ [UpdateClose (fst (hd calls)) (snd (hd calls))]
       \<and> length (filter is_close (emitted (end_calls calls s))) =
           Suc (length (filter is_close (emitted s)))
       \<and> (\<forall>error now. end_sock error now (end_calls calls s) = end_calls calls s)"
proof -
  from assms(2) obtain error now rest where calls: "calls = (error, now) # rest"
    by (cases calls) auto
  have first: "end_calls calls s = end_sock error now s"
    by (simp add: calls end_calls_when_closed end_sock_closed)
  have em: "emitted (end_sock error now s) = emitted s @ [UpdateClose error now]"
    using assms(1) by (simp add: end_sock_def)
  have again: "end_sock e t (end_sock error now s) = end_sock error now s" for e t
    by (simp add: end_sock_when_closed end_sock_closed)
  have hd: "fst (hd calls) = error" "snd (hd calls) = now"
    by (simp_all add: calls)
  show ?thesis
    unfolding hd first by (simp add: em again)
qed

theorem end_idempotent_witness:
  "(let s = \<lparr> closed = False, readyState = OPEN, keepAliveReq = Some 30000, qrTimer = None,
              wsListeners = [''close'', ''frame''], evListeners = [''connection.update''],
              emitted = [] \<rparr>;
        lost = Some \<lparr> boom_message = ''Connection was lost'', statusCode = connectionLost \<rparr>;
        calls = [(lost, 7), (None, 8), (lost, 9)]
    in \<not> closed s \<and> calls \<noteq> []
     \<and> emitted (end_calls calls s) = [UpdateClose lost 7]
     \<and> closed (end_calls calls s)
     \<and> wsListeners (end_calls calls s) = [''frame''])"
proof -
  let ?s = "\<lparr> closed = False, readyState = OPEN, keepAliveReq = Some 30000, qrTimer = None,
              wsListeners = [''close'', ''frame''], evListeners = [''connection.update''],
              emitted = [] \<rparr>"
  let ?lost = "Some \<lparr> boom_message = ''Connection was lost'', statusCode = connectionLost \<rparr>"
  let ?calls = "[(?lost, 7), (None, 8), (?lost, 9)] :: (Boom option \<times> nat) list"
  have a: "\<not> closed ?s" by simp
  have b: "?calls \<noteq> []" by simp
  show ?thesis
    using end_idempotent [OF a b] unfolding Let_def
    by (simp add: end_sock_def)
qed

subsection \<open>QR rotation\<close>

lemma join_comma_qr:
  "join_comma [ref, noiseKeyB64 keys, identityKeyB64 keys, advB64 keys] = qr_of keys ref"
  by (simp add: qr_of_def)

lemma genPairQR_next:
  assumes "readyState s = OPEN" and "refNodes p = ref # rest"
  shows "genPairQR qrTimeout keys now (s, p) =
           (s\<lparr> emitted := emitted s @ [UpdateQR (qr_of keys ref)], qrTimer := Some (qrMs p) \<rparr>,
            \<lparr> refNodes = rest, qrMs = js_or qrTimeout 20000 \<rparr>)"
  using assms by (simp add: genPairQR_def Let_def join_comma_qr del: join_comma.simps)

lemma genPairQR_exhausted:
  assumes "readyState s = OPEN" and "refNodes p = []"
  shows "genPairQR qrTimeout keys now (s, p) =
           (end_sock (Some \<lparr> boom_message = ''QR refs attempts ended'', statusCode = timedOut \<rparr>) now s,
            p)"
  using assms by (simp add: genPairQR_def Let_def)

text \<open>The state after the handler's call and \<open>j\<close> firings of the timer, while refs remain.\<close>

lemma qr_rotation_state:
  assumes "readyState s = OPEN" and "j < length refs"
  shows "(qr_timer_fires qrTimeout keys now ^^ j) (pair_device qrTimeout keys refs now s) =
           (s\<lparr> emitted := emitted s @ map (\<lambda>r. UpdateQR (qr_of keys r)) (take (Suc j) refs),
               qrTimer := Some (if j = 0 then js_or qrTimeout 60000 else js_or qrTimeout 20000) \<rparr>,
            \<lparr> refNodes = drop (Suc j) refs, qrMs = js_or qrTimeout 20000 \<rparr>)"
  using assms(2)
proof (induction j)
  case 0
  then obtain r rest where refs: "refs = r # rest"
    by (cases refs) auto
  show ?case
    unfolding pair_device_def
    by (simp add: genPairQR_next [OF assms(1), where ref = r and rest = rest] refs)
next
  case (Suc j)
  then have j: "j < length refs" and sj: "Suc j < length refs"
    by simp_all
  let ?s = "s\<lparr> emitted := emitted s @ map (\<lambda>r. UpdateQR (qr_of keys r)) (take (Suc j) refs),
               qrTimer := Some (if j = 0 then js_or qrTimeout 60000 else js_or qrTimeout 20000) \<rparr>"
  let ?p = "\<lparr> refNodes = drop (Suc j) refs, qrMs = js_or qrTimeout 20000 \<rparr>"
  have prev: "(qr_timer_fires qrTimeout keys now ^^ j) (pair_device qrTimeout keys refs now s)
      = (?s, ?p)"
    using Suc.IH [OF j] .
  have drop: "refNodes ?p = refs ! Suc j # drop (Suc (Suc j)) refs"
    using sj by (simp add: Cons_nth_drop_Suc)
  have take: "take (Suc (Suc j)) refs = take (Suc j) refs @ [refs ! Suc j]"
    using sj by (rule take_Suc_conv_app_nth)
  have op: "readyState (?s\<lparr> qrTimer := None \<rparr>) = OPEN"
    using assms(1) by simp
  have "qr_timer_fires qrTimeout keys now (?s, ?p) =
      genPairQR qrTimeout keys now (?s\<lparr> qrTimer := None \<rparr>, ?p)"
    by (simp add: qr_timer_fires_def)
  also have "\<dots> =
      (?s\<lparr> qrTimer := None \<rparr>
         \<lparr> emitted := emitted (?s\<lparr> qrTimer := None \<rparr>) @ [UpdateQR (qr_of keys (refs ! Suc j))],
           qrTimer := Some (qrMs ?p) \<rparr>,
       \<lparr> refNodes = drop (Suc (Suc j)) refs, qrMs = js_or qrTimeout 20000 \<rparr>)"
    by (rule genPairQR_next [OF op drop])
  finally have step: "qr_timer_fires qrTimeout keys now (?s, ?p) =
      (s\<lparr> emitted := emitted s @ map (\<lambda>r. UpdateQR (qr_of keys r)) (take (Suc (Suc j)) refs),
          qrTimer := Some (js_or qrTimeout 20000) \<rparr>,
       \<lparr> refNodes = drop (Suc (Suc j)) refs, qrMs = js_or qrTimeout 20000 \<rparr>)"
    by (simp add: take)
  show ?case
    by (simp add: prev step del: take_Suc drop_Suc)
qed

text \<open>Once every ref has been shown, the next call of \<open>genPairQR\<close> ends the connection.\<close>

lemma qr_rotation_end:
  assumes "readyState s = OPEN"
  shows "fst ((qr_timer_fires qrTimeout keys now ^^ length refs)
               (pair_device qrTimeout keys refs now s)) =
           end_sock (Some \<lparr> boom_message = ''QR refs attempts ended'', statusCode = timedOut \<rparr>) now
             (s\<lparr> emitted := emitted s @ map (\<lambda>r. UpdateQR (qr_of keys r)) refs,
                 qrTimer := None \<rparr>)
         \<or> refs = [] \<and>
           fst (pair_device qrTimeout keys refs now s) =
             end_sock (Some \<lparr> boom_message = ''QR refs attempts ended'', statusCode = timedOut \<rparr>) now s"
proof (cases refs)
  case Nil
  then show ?thesis
    unfolding pair_device_def using assms by (simp add: genPairQR_exhausted)
next
  case (Cons r rest)
  let ?s = "s\<lparr> emitted := emitted s @ map (\<lambda>r. UpdateQR (qr_of keys r)) refs,
               qrTimer := Some (if length rest = 0 then js_or qrTimeout 60000
                                else js_or qrTimeout 20000) \<rparr>"
  let ?p = "\<lparr> refNodes = [], qrMs = js_or qrTimeout 20000 \<rparr>"
  have len: "length refs = Suc (length rest)" "length rest < length refs"
    by (simp_all add: Cons)
  have prev: "(qr_timer_fires qrTimeout keys now ^^ length rest)
      (pair_device qrTimeout keys refs now s) = (?s, ?p)"
    using qr_rotation_state [OF assms len(2), of qrTimeout keys now] by (simp add: len(1))
  have op: "readyState (?s\<lparr> qrTimer := None \<rparr>) = OPEN"
    using assms by simp
  have "qr_timer_fires qrTimeout keys now (?s, ?p) =
      genPairQR qrTimeout keys now (?s\<lparr> qrTimer := None \<rparr>, ?p)"
    by (simp add: qr_timer_fires_def)
  also have "\<dots> =
      (end_sock (Some \<lparr> boom_message = ''QR refs attempts ended'', statusCode = timedOut \<rparr>) now
         (?s\<lparr> qrTimer := None \<rparr>), ?p)"
    by (rule genPairQR_exhausted [OF op]) simp
  finally have "qr_timer_fires qrTimeout keys now (?s, ?p) =
      (end_sock (Some \<lparr> boom_message = ''QR refs attempts ended'', statusCode = timedOut \<rparr>) now
         (s\<lparr> emitted := emitted s @ map (\<lambda>r. UpdateQR (qr_of keys r)) refs,
             qrTimer := None \<rparr>), ?p)"
    by simp
  then show ?thesis
    by (simp add: len(1) prev)
qed

text \<open>
  C8 (amended). On receiving the pair-device IQ with refs \<open>r1 .. rn\<close>, while the socket
  stays open: the \<open>j\<close>-th emitted \<open>qr\<close> value is \<open>ref + ',' + base64(noiseKey.public)
  + ',' + base64(signedIdentityKey.public) + ',' + advSecretKey\<close> for the \<open>j\<close>-th ref; the
  timer set for the first QR is \<open>qrTimeout\<close> ms, or 60000 ms when \<open>qrTimeout\<close> is unset
  or zero; the timer set for every later QR is again \<open>qrTimeout\<close> ms, and 20000 ms only
  when \<open>qrTimeout\<close> is unset or zero; and the call of \<open>genPairQR\<close> that finds no ref left
  closes the connection with status code \<open>timedOut\<close>.
\<close>

theorem qr_rotation:
  assumes "readyState s = OPEN" and "\<not> closed s"
  shows "(\<forall>j < length refs.
            emitted (qr_run qrTimeout keys now refs s j) =
              emitted s @ map (\<lambda>r. UpdateQR (qr_of keys r)) (take (Suc j) refs)
          \<and> qrTimer (qr_run qrTimeout keys now refs s j) =
              Some (if j = 0 then js_or qrTimeout 60000 else js_or qrTimeout 20000)
          \<and> \<not> closed (qr_run qrTimeout keys now refs s j))
       \<and> emitted (qr_run qrTimeout keys now refs s (length refs)) =
           emitted s @ map (\<lambda>r. UpdateQR (qr_of keys r)) refs
             @ [UpdateClose (Some qr_refs_ended) now]
       \<and> closed (qr_run qrTimeout keys now refs s (length refs))
       \<and> qrTimer (qr_run qrTimeout keys now refs s (length refs)) = None"
proof -
  have during: "emitted (qr_run qrTimeout keys now refs s j) =
        emitted s @ map (\<lambda>r. UpdateQR (qr_of keys r)) (take (Suc j) refs)
      \<and> qrTimer (qr_run qrTimeout keys now refs s j) =
        Some (if j = 0 then js_or qrTimeout 60000 else js_or qrTimeout 20000)
      \<and> \<not> closed (qr_run qrTimeout keys now refs s j)"
    if "j < length refs" for j
    unfolding qr_run_def qr_rotation_state [OF assms(1) that]
    using assms(2) by simp
  let ?final = "qr_run qrTimeout keys now refs s (length refs)"
  have final: "?final = end_sock (Some qr_refs_ended) now
         (s\<lparr> emitted := emitted s @ map (\<lambda>r. UpdateQR (qr_of keys r)) refs, qrTimer := None \<rparr>)
      \<or> refs = [] \<and> ?final = end_sock (Some qr_refs_ended) now s"
    using qr_rotation_end [OF assms(1), where qrTimeout = qrTimeout and keys = keys
        and now = now and refs = refs]
    unfolding qr_run_def qr_refs_ended_def by auto
  have "emitted ?final = emitted s @ map (\<lambda>r. UpdateQR (qr_of keys r)) refs
             @ [UpdateClose (Some qr_refs_ended) now]
      \<and> closed ?final \<and> qrTimer ?final = None"
    using final assms(2) by (auto simp: end_sock_def)
  with during show ?thesis by blast
qed

theorem qr_rotation_witness:
  "readyState pairing_socket = OPEN \<and> \<not> closed pairing_socket
   \<and> emitted (qr_run None pairing_keys 99 [''r1'', ''r2''] pairing_socket 0) =
       [UpdateQR ''r1,bm9pc2U=,aWRlbnQ=,YWR2'']
   \<and> qrTimer (qr_run None pairing_keys 99 [''r1'', ''r2''] pairing_socket 0) = Some 60000
   \<and> emitted (qr_run None pairing_keys 99 [''r1'', ''r2''] pairing_socket 1) =
       [UpdateQR ''r1,bm9pc2U=,aWRlbnQ=,YWR2'', UpdateQR ''r2,bm9pc2U=,aWRlbnQ=,YWR2'']
   \<and> qrTimer (qr_run None pairing_keys 99 [''r1'', ''r2''] pairing_socket 1) = Some 20000
   \<and> emitted (qr_run None pairing_keys 99 [''r1'', ''r2''] pairing_socket 2) =
       [UpdateQR ''r1,bm9pc2U=,aWRlbnQ=,YWR2'', UpdateQR ''r2,bm9pc2U=,aWRlbnQ=,YWR2'',
        UpdateClose (Some qr_refs_ended) 99]
   \<and> closed (qr_run None pairing_keys 99 [''r1'', ''r2''] pairing_socket 2)"
proof -
  have a: "readyState pairing_socket = OPEN" and b: "\<not> closed pairing_socket"
    by (simp_all add: pairing_socket_def)
  have e: "emitted pairing_socket = []"
    by (simp add: pairing_socket_def)
  have q: "qr_of pairing_keys ''r1'' = ''r1,bm9pc2U=,aWRlbnQ=,YWR2''"
    "qr_of pairing_keys ''r2'' = ''r2,bm9pc2U=,aWRlbnQ=,YWR2''"
    by (simp_all add: qr_of_def pairing_keys_def)
  note r = qr_rotation [OF a b, where refs = "[''r1'', ''r2'']" and qrTimeout = None
      and keys = pairing_keys and now = 99]
  have j0: "emitted (qr_run None pairing_keys 99 [''r1'', ''r2''] pairing_socket 0) =
        [UpdateQR ''r1,bm9pc2U=,aWRlbnQ=,YWR2'']
      \<and> qrTimer (qr_run None pairing_keys 99 [''r1'', ''r2''] pairing_socket 0) = Some 60000"
    using r [THEN conjunct1, rule_format, of 0] by (simp add: e q js_or_def)
  have j1: "emitted (qr_run None pairing_keys 99 [''r1'', ''r2''] pairing_socket 1) =
        [UpdateQR ''r1,bm9pc2U=,aWRlbnQ=,YWR2'', UpdateQR ''r2,bm9pc2U=,aWRlbnQ=,YWR2'']
      \<and> qrTimer (qr_run None pairing_keys 99 [''r1'', ''r2''] pairing_socket 1) = Some 20000"
    using r [THEN conjunct1, rule_format, of 1] by (simp add: e q js_or_def)
  have j2: "emitted (qr_run None pairing_keys 99 [''r1'', ''r2''] pairing_socket 2) =
        [UpdateQR ''r1,bm9pc2U=,aWRlbnQ=,YWR2'', UpdateQR ''r2,bm9pc2U=,aWRlbnQ=,YWR2'',
         UpdateClose (Some qr_refs_ended) 99]
      \<and> closed (qr_run None pairing_keys 99 [''r1'', ''r2''] pairing_socket 2)"
    using r [THEN conjunct2] by (simp add: e q numeral_2_eq_2)
  show ?thesis
    using a b j0 j1 j2 by blast
qed

text \<open>
  C8 as stated fails: with \<open>qrTimeout = 30000\<close> and two refs, the second QR is given a
  timer of 30000 ms, not of 20 s.
\<close>

theorem qr_rotation_counterexample:
  "qrTimer (qr_run (Some 30000) pairing_keys 99 [''r1'', ''r2''] pairing_socket 1) = Some 30000
   \<and> qrTimer (qr_run (Some 30000) pairing_keys 99 [''r1'', ''r2''] pairing_socket 1) \<noteq> Some 20000"
  by (simp add: qr_run_def pair_device_def qr_timer_fires_def genPairQR_def pairing_socket_def
      js_or_def Let_def)

section \<open>Properties of the app-state resync\<close>

lemma load_state_frame:
  "versions (fst (load_state env name sn)) = versions (fst sn)"
  "collectionsToHandle (fst (load_state env name sn)) = collectionsToHandle (fst sn)"
  "attemptsMap (fst (load_state env name sn)) = attemptsMap (fst sn)"
  by (simp_all add: load_state_def Let_def split: option.splits)

lemma fold_load_state_frame:
  "versions (fst (fold (load_state env) names sn)) = versions (fst sn)"
  "collectionsToHandle (fst (fold (load_state env) names sn)) = collectionsToHandle (fst sn)"
  "attemptsMap (fst (fold (load_state env) names sn)) = attemptsMap (fst sn)"
  by (induction names arbitrary: sn) (simp_all add: load_state_frame)

lemma sync_snapshot_frame:
  assumes "sync_snapshot env name d st = (r, st')"
  shows "collectionsToHandle st' = collectionsToHandle st"
    and "attemptsMap st' = attemptsMap st"
    and "other \<noteq> name \<Longrightarrow> versions st' other = versions st other"
  using assms
  by (auto simp: sync_snapshot_def split: option.splits sum.splits prod.splits)

lemma sync_patches_frame:
  assumes "sync_patches env name d st = (r, st')"
  shows "collectionsToHandle st' = collectionsToHandle st"
    and "attemptsMap st' = attemptsMap st"
    and "other \<noteq> name \<Longrightarrow> versions st' other = versions st other"
  using assms
  by (auto simp: sync_patches_def split: if_splits sum.splits prod.splits)

text \<open>The try block changes no attempt count; when it throws, the set is as before.\<close>

lemma try_sync_frame:
  assumes "try_sync env name d st = (r, st')"
  shows "attemptsMap st' = attemptsMap st"
    and "other \<noteq> name \<Longrightarrow> versions st' other = versions st other"
    and "other \<noteq> name \<Longrightarrow>
           other \<in> set (collectionsToHandle st') \<longleftrightarrow> other \<in> set (collectionsToHandle st)"
    and "r \<noteq> None \<Longrightarrow> collectionsToHandle st' = collectionsToHandle st"
proof -
  obtain r1 st1 where s1: "sync_snapshot env name d st = (r1, st1)"
    by (cases "sync_snapshot env name d st") auto
  obtain r2 st2 where s2: "sync_patches env name d st1 = (r2, st2)"
    by (cases "sync_patches env name d st1") auto
  note f1 = sync_snapshot_frame [OF s1] and f2 = sync_patches_frame [OF s2]
  have cases: "(r1 \<noteq> None \<and> r = r1 \<and> st' = st1)
      \<or> (r1 = None \<and> r2 \<noteq> None \<and> r = r2 \<and> st' = st2)
      \<or> (r1 = None \<and> r2 = None \<and> r = None
          \<and> st' = (if hasMorePatches d then st2
                   else st2\<lparr> collectionsToHandle := removeAll name (collectionsToHandle st2) \<rparr>))"
    using assms unfolding try_sync_def s1 by (cases r1; cases r2) (auto simp: s2)
  show "attemptsMap st' = attemptsMap st"
    using cases f1(2) f2(2) by auto
  show "other \<noteq> name \<Longrightarrow> versions st' other = versions st other"
    using cases f1(3) f2(3) by auto
  show "other \<noteq> name \<Longrightarrow>
      other \<in> set (collectionsToHandle st') \<longleftrightarrow> other \<in> set (collectionsToHandle st)"
    using cases f1(1) f2(1) by (auto split: if_splits)
  show "r \<noteq> None \<Longrightarrow> collectionsToHandle st' = collectionsToHandle st"
    using cases f1(1) f2(1) by auto
qed

lemma catch_sync_frame:
  assumes "other \<noteq> name"
  shows "attemptsMap (catch_sync name error st) other = attemptsMap st other"
    and "versions (catch_sync name error st) other = versions st other"
    and "other \<in> set (collectionsToHandle (catch_sync name error st))
           \<longleftrightarrow> other \<in> set (collectionsToHandle st)"
  using assms by (simp_all add: catch_sync_def Let_def)

text \<open>Handling one collection leaves every other collection as it was.\<close>

lemma handle_collection_frame:
  assumes "other \<noteq> fst nd"
  shows "attemptsMap (handle_collection env nd st) other = attemptsMap st other"
    and "versions (handle_collection env nd st) other = versions st other"
    and "other \<in> set (collectionsToHandle (handle_collection env nd st))
           \<longleftrightarrow> other \<in> set (collectionsToHandle st)"
proof -
  obtain r st' where t: "try_sync env (fst nd) (snd nd) st = (r, st')"
    by (cases "try_sync env (fst nd) (snd nd) st") auto
  note f = try_sync_frame [OF t] and c = catch_sync_frame [OF assms]
  have h: "handle_collection env nd st =
      (case r of None \<Rightarrow> st' | Some error \<Rightarrow> catch_sync (fst nd) error st')"
    by (simp add: handle_collection_def t split: option.splits)
  show "attemptsMap (handle_collection env nd st) other = attemptsMap st other"
    using f(1) c(1) by (cases r) (simp_all add: h)
  show "versions (handle_collection env nd st) other = versions st other"
    using f(2) [OF assms] c(2) by (cases r) (simp_all add: h)
  show "other \<in> set (collectionsToHandle (handle_collection env nd st))
      \<longleftrightarrow> other \<in> set (collectionsToHandle st)"
    using f(3) [OF assms] c(3) by (cases r) (simp_all add: h)
qed

lemma fold_handle_collection_frame:
  assumes "other \<notin> fst ` set decoded"
  shows "attemptsMap (fold (handle_collection env) decoded st) other = attemptsMap st other"
    and "versions (fold (handle_collection env) decoded st) other = versions st other"
    and "other \<in> set (collectionsToHandle (fold (handle_collection env) decoded st))
           \<longleftrightarrow> other \<in> set (collectionsToHandle st)"
  using assms
  by (induction decoded arbitrary: st) (auto simp: handle_collection_frame)

text \<open>What the catch branch does to the collection whose decoding threw.\<close>

lemma handle_collection_throws:
  assumes "try_sync env name d st = (Some error, st1)"
  shows "versions (handle_collection env (name, d) st) name = None"
    and "attemptsMap (handle_collection env (name, d) st) name =
           Some (Suc (case attemptsMap st name of None \<Rightarrow> 0 | Some n \<Rightarrow> n))"
    and "name \<in> set (collectionsToHandle (handle_collection env (name, d) st)) \<longleftrightarrow>
           name \<in> set (collectionsToHandle st) \<and> \<not> isIrrecoverableError (attemptsMap st name) error"
proof -
  note f = try_sync_frame [OF assms]
  have h: "handle_collection env (name, d) st = catch_sync name error st1"
    by (simp add: handle_collection_def assms)
  show "versions (handle_collection env (name, d) st) name = None"
    by (simp add: h catch_sync_def Let_def)
  show "attemptsMap (handle_collection env (name, d) st) name =
      Some (Suc (case attemptsMap st name of None \<Rightarrow> 0 | Some n \<Rightarrow> n))"
    by (simp add: h catch_sync_def Let_def f(1))
  show "name \<in> set (collectionsToHandle (handle_collection env (name, d) st)) \<longleftrightarrow>
      name \<in> set (collectionsToHandle st) \<and> \<not> isIrrecoverableError (attemptsMap st name) error"
    using f(4) by (simp add: h catch_sync_def Let_def f(1))
qed

lemma try_sync_rejected:
  assumes "patches_rejected env name error" and "snapshot d = None" and "patches d \<noteq> []"
  shows "try_sync env name d st = (Some error, st)"
  using assms
  by (simp add: try_sync_def sync_snapshot_def sync_patches_def patches_rejected_def)

text \<open>A round in which the patches of \<open>name\<close> are rejected.\<close>

lemma sync_round_rejected:
  assumes rej: "patches_rejected env name error" and reply: "reply_with_patches name decoded"
  shows "versions (sync_round env decoded st) name = None"
    and "attemptsMap (sync_round env decoded st) name =
           Some (Suc (case attemptsMap st name of None \<Rightarrow> 0 | Some n \<Rightarrow> n))"
    and "name \<in> set (collectionsToHandle (sync_round env decoded st)) \<longleftrightarrow>
           name \<in> set (collectionsToHandle st) \<and> \<not> isIrrecoverableError (attemptsMap st name) error"
proof -
  from reply obtain d where d: "map_of decoded name = Some d" "snapshot d = None" "patches d \<noteq> []"
    and dist: "distinct (map fst decoded)"
    by (auto simp: reply_with_patches_def split: option.splits)
  from d(1) have "(name, d) \<in> set decoded"
    by (rule map_of_SomeD)
  then obtain xs ys where split: "decoded = xs @ (name, d) # ys"
    by (auto dest: split_list)
  with dist have nx: "name \<notin> fst ` set xs" and ny: "name \<notin> fst ` set ys"
    by auto
  obtain st0 nodes where loaded:
    "fold (load_state env) (collectionsToHandle st) (st\<lparr> states := Map.empty \<rparr>, []) = (st0, nodes)"
    by (cases "fold (load_state env) (collectionsToHandle st) (st\<lparr> states := Map.empty \<rparr>, [])") auto
  let ?a = "st0\<lparr> sent := sent st0 @ [nodes] \<rparr>"
  let ?b = "fold (handle_collection env) xs ?a"
  let ?c = "handle_collection env (name, d) ?b"
  have round: "sync_round env decoded st = fold (handle_collection env) ys ?c"
    by (simp add: sync_round_def loaded split)
  have a: "attemptsMap ?a = attemptsMap st" "collectionsToHandle ?a = collectionsToHandle st"
    using fold_load_state_frame(2,3) [of env "collectionsToHandle st" "(st\<lparr> states := Map.empty \<rparr>, [])"]
    by (simp_all add: loaded)
  have b: "attemptsMap ?b name = attemptsMap st name"
    "name \<in> set (collectionsToHandle ?b) \<longleftrightarrow> name \<in> set (collectionsToHandle st)"
    using fold_handle_collection_frame(1,3) [OF nx, of env ?a] by (simp_all add: a)
  note t = try_sync_rejected [OF rej d(2,3), of ?b]
  note c = handle_collection_throws [OF t]
  show "versions (sync_round env decoded st) name = None"
    unfolding round using fold_handle_collection_frame(2) [OF ny, of env ?c] c(1) by simp
  show "attemptsMap (sync_round env decoded st) name =
      Some (Suc (case attemptsMap st name of None \<Rightarrow> 0 | Some n \<Rightarrow> n))"
    unfolding round using fold_handle_collection_frame(1) [OF ny, of env ?c] c(2) b(1) by simp
  show "name \<in> set (collectionsToHandle (sync_round env decoded st)) \<longleftrightarrow>
      name \<in> set (collectionsToHandle st) \<and> \<not> isIrrecoverableError (attemptsMap st name) error"
    unfolding round using fold_handle_collection_frame(3) [OF ny, of env ?c] c(3) b by simp
qed

text \<open>
  C2 (amended). In \<open>resyncAppState\<close>, when decoding a collection's snapshot or patches
  throws, the stored \<open>app-state-sync-version\<close> entry of that collection is set to null and
  its attempt count goes up by one; the collection leaves the set of collections to handle
  exactly when the error is irrecoverable, that is when the attempt count recorded before
  this failure is already \<open>\<ge> MAX_SYNC_ATTEMPTS = 2\<close>, or the status code of the error is
  404, or it is a type error; entries and membership of the other collections are not
  touched. So a collection whose patches have a tampered MAC, with
  \<open>macVerification.patch = true\<close>, is wiped and retried after its first and after its
  second failure, and it is the third failure that abandons it.
\<close>

theorem resync_failure_handling:
  "(try_sync env name d st = (Some thrown, thrown_at) \<longrightarrow>
      versions (handle_collection env (name, d) st) name = None
    \<and> attemptsMap (handle_collection env (name, d) st) name =
        Some (Suc (case attemptsMap st name of None \<Rightarrow> 0 | Some n \<Rightarrow> n))
    \<and> (name \<in> set (collectionsToHandle (handle_collection env (name, d) st)) \<longleftrightarrow>
         name \<in> set (collectionsToHandle st)
         \<and> \<not> ((\<exists>n. attemptsMap st name = Some n \<and> 2 \<le> n)
              \<or> output_statusCode thrown = Some 404
              \<or> error_name thrown = ''TypeError''))
    \<and> (\<forall>other. other \<noteq> name \<longrightarrow>
          versions (handle_collection env (name, d) st) other = versions st other
        \<and> (other \<in> set (collectionsToHandle (handle_collection env (name, d) st)) \<longleftrightarrow>
             other \<in> set (collectionsToHandle st))))
   \<and> (patches_rejected env name error
      \<and> output_statusCode error \<noteq> Some 404 \<and> error_name error \<noteq> ''TypeError''
      \<and> reply_with_patches name ra \<and> reply_with_patches name rb \<and> reply_with_patches name rc
      \<and> name \<in> set (collectionsToHandle st) \<and> attemptsMap st name = None \<longrightarrow>
      versions (sync_round env ra st) name = None
    \<and> name \<in> set (collectionsToHandle (sync_round env ra st))
    \<and> versions (sync_round env rb (sync_round env ra st)) name = None
    \<and> name \<in> set (collectionsToHandle (sync_round env rb (sync_round env ra st)))
    \<and> versions (sync_round env rc (sync_round env rb (sync_round env ra st))) name = None
    \<and> name \<notin> set (collectionsToHandle (sync_round env rc (sync_round env rb (sync_round env ra st)))))"
proof (intro conjI impI)
  assume t: "try_sync env name d st = (Some thrown, thrown_at)"
  note h = handle_collection_throws [OF t]
  show "versions (handle_collection env (name, d) st) name = None"
    by (rule h(1))
  show "attemptsMap (handle_collection env (name, d) st) name =
      Some (Suc (case attemptsMap st name of None \<Rightarrow> 0 | Some n \<Rightarrow> n))"
    by (rule h(2))
  have "isIrrecoverableError (attemptsMap st name) thrown \<longleftrightarrow>
      (\<exists>n. attemptsMap st name = Some n \<and> 2 \<le> n)
      \<or> output_statusCode thrown = Some 404 \<or> error_name thrown = ''TypeError''"
    by (cases "attemptsMap st name") (simp_all add: isIrrecoverableError_def MAX_SYNC_ATTEMPTS_def)
  with h(3) show "name \<in> set (collectionsToHandle (handle_collection env (name, d) st)) \<longleftrightarrow>
      name \<in> set (collectionsToHandle st)
      \<and> \<not> ((\<exists>n. attemptsMap st name = Some n \<and> 2 \<le> n)
           \<or> output_statusCode thrown = Some 404
           \<or> error_name thrown = ''TypeError'')"
    by simp
  show "\<forall>other. other \<noteq> name \<longrightarrow>
      versions (handle_collection env (name, d) st) other = versions st other
      \<and> (other \<in> set (collectionsToHandle (handle_collection env (name, d) st)) \<longleftrightarrow>
           other \<in> set (collectionsToHandle st))"
    using handle_collection_frame(2,3) [of _ "(name, d)" env st] by simp
next
  assume a: "patches_rejected env name error
      \<and> output_statusCode error \<noteq> Some 404 \<and> error_name error \<noteq> ''TypeError''
      \<and> reply_with_patches name ra \<and> reply_with_patches name rb \<and> reply_with_patches name rc
      \<and> name \<in> set (collectionsToHandle st) \<and> attemptsMap st name = None"
  then have rej: "patches_rejected env name error"
    and kind: "output_statusCode error \<noteq> Some 404" "error_name error \<noteq> ''TypeError''"
    and ra: "reply_with_patches name ra" and rb: "reply_with_patches name rb"
    and rc: "reply_with_patches name rc"
    and mem: "name \<in> set (collectionsToHandle st)" and att: "attemptsMap st name = None"
    by simp_all
  let ?s1 = "sync_round env ra st"
  let ?s2 = "sync_round env rb ?s1"
  let ?s3 = "sync_round env rc ?s2"
  note f1 = sync_round_rejected [OF rej ra, of st]
  note f2 = sync_round_rejected [OF rej rb, of ?s1]
  note f3 = sync_round_rejected [OF rej rc, of ?s2]
  have a1: "attemptsMap ?s1 name = Some 1"
    using f1(2) att by simp
  have a2: "attemptsMap ?s2 name = Some 2"
    using f2(2) a1 by simp
  have m1: "name \<in> set (collectionsToHandle ?s1)"
    using f1(3) mem att kind by (simp add: isIrrecoverableError_def)
  have m2: "name \<in> set (collectionsToHandle ?s2)"
    using f2(3) m1 a1 kind by (simp add: isIrrecoverableError_def MAX_SYNC_ATTEMPTS_def)
  have m3: "name \<notin> set (collectionsToHandle ?s3)"
    using f3(3) a2 by (simp add: isIrrecoverableError_def MAX_SYNC_ATTEMPTS_def)
  show "versions ?s1 name = None" by (rule f1(1))
  show "name \<in> set (collectionsToHandle ?s1)" by (rule m1)
  show "versions ?s2 name = None" by (rule f2(1))
  show "name \<in> set (collectionsToHandle ?s2)" by (rule m2)
  show "versions ?s3 name = None" by (rule f3(1))
  show "name \<notin> set (collectionsToHandle ?s3)" by (rule m3)
qed

lemmas tampered_example_defs =
  tampered_env_def tampered_reply_def tampered_retry_def tampered_start_def invalid_patch_mac_def
  resync_start_def js_set_def

lemmas sync_round_defs =
  sync_round_def load_state_def handle_collection_def try_sync_def sync_snapshot_def
  sync_patches_def catch_sync_def isIrrecoverableError_def MAX_SYNC_ATTEMPTS_def Let_def

theorem resync_failure_handling_witness:
  "try_sync tampered_env ''regular'' (snd (hd tampered_reply)) tampered_start =
     (Some invalid_patch_mac, tampered_start)
   \<and> patches_rejected tampered_env ''regular'' invalid_patch_mac
   \<and> output_statusCode invalid_patch_mac \<noteq> Some 404
   \<and> error_name invalid_patch_mac \<noteq> ''TypeError''
   \<and> reply_with_patches ''regular'' tampered_reply
   \<and> reply_with_patches ''regular'' tampered_retry
   \<and> ''regular'' \<in> set (collectionsToHandle tampered_start)
   \<and> attemptsMap tampered_start ''regular'' = None
   \<and> versions (handle_collection tampered_env (''regular'', snd (hd tampered_reply)) tampered_start)
        ''regular'' = None
   \<and> ''regular'' \<in> set (collectionsToHandle
        (handle_collection tampered_env (''regular'', snd (hd tampered_reply)) tampered_start))
   \<and> ''regular'' \<in> set (collectionsToHandle (sync_round tampered_env tampered_reply tampered_start))
   \<and> ''regular'' \<in> set (collectionsToHandle
        (sync_round tampered_env tampered_retry
          (sync_round tampered_env tampered_reply tampered_start)))
   \<and> ''regular'' \<notin> set (collectionsToHandle
        (sync_round tampered_env tampered_retry
          (sync_round tampered_env tampered_retry
            (sync_round tampered_env tampered_reply tampered_start))))"
proof -
  have t: "try_sync tampered_env ''regular'' (snd (hd tampered_reply)) tampered_start =
      (Some invalid_patch_mac, tampered_start)"
    by (simp add: tampered_env_def tampered_reply_def try_sync_def sync_snapshot_def
        sync_patches_def)
  have rej: "patches_rejected tampered_env ''regular'' invalid_patch_mac"
    by (simp add: patches_rejected_def tampered_env_def)
  have kind: "output_statusCode invalid_patch_mac \<noteq> Some 404"
    "error_name invalid_patch_mac \<noteq> ''TypeError''"
    by (simp_all add: invalid_patch_mac_def)
  have r1: "reply_with_patches ''regular'' tampered_reply"
    and r2: "reply_with_patches ''regular'' tampered_retry"
    by (simp_all add: reply_with_patches_def tampered_reply_def tampered_retry_def)
  have start: "''regular'' \<in> set (collectionsToHandle tampered_start)"
    "attemptsMap tampered_start ''regular'' = None"
    by (simp_all add: tampered_start_def resync_start_def js_set_def)
  note inst = resync_failure_handling [where env = tampered_env and name = "''regular''"
      and d = "snd (hd tampered_reply)" and st = tampered_start and thrown_at = tampered_start
      and thrown = invalid_patch_mac and error = invalid_patch_mac
      and ra = tampered_reply and rb = tampered_retry and rc = tampered_retry]
  from inst t start have single:
    "versions (handle_collection tampered_env (''regular'', snd (hd tampered_reply)) tampered_start)
        ''regular'' = None
     \<and> ''regular'' \<in> set (collectionsToHandle
        (handle_collection tampered_env (''regular'', snd (hd tampered_reply)) tampered_start))"
    using kind by simp
  from inst rej kind r1 r2 start have rounds:
    "''regular'' \<in> set (collectionsToHandle (sync_round tampered_env tampered_reply tampered_start))
     \<and> ''regular'' \<in> set (collectionsToHandle
        (sync_round tampered_env tampered_retry
          (sync_round tampered_env tampered_reply tampered_start)))
     \<and> ''regular'' \<notin> set (collectionsToHandle
        (sync_round tampered_env tampered_retry
          (sync_round tampered_env tampered_retry
            (sync_round tampered_env tampered_reply tampered_start))))"
    by blast
  show ?thesis
    using t rej kind r1 r2 start single rounds by blast
qed

text \<open>
  C2 as stated fails: after the second failure of \<open>regular\<close> (its attempt count is then
  2) the collection is still in the set of collections to handle.
\<close>

theorem resync_second_failure_counterexample:
  "attemptsMap
     (sync_round tampered_env tampered_retry (sync_round tampered_env tampered_reply tampered_start))
     ''regular'' = Some 2
   \<and> collectionsToHandle
       (sync_round tampered_env tampered_retry (sync_round tampered_env tampered_reply tampered_start))
     = [''regular'']"
  by (simp add: tampered_example_defs sync_round_defs)

text \<open>
  The whole loop on the example: it ends after the third reply, with \<open>regular\<close> wiped and
  \<open>critical_block\<close> synced to version 2.
\<close>

lemma tampered_loop:
  "map_option (\<lambda>st. (collectionsToHandle st, versions st ''regular'',
                     map_option version (versions st ''critical_block''),
                     attemptsMap st ''regular''))
     (sync_loop tampered_env [tampered_reply, tampered_retry, tampered_retry] tampered_start)
   = Some ([], None, Some 2, Some 3)"
  by (simp add: tampered_example_defs sync_round_defs)

section \<open>Properties of the relay\<close>

subsection \<open>Attributes and nodes\<close>

lemma map_of_set_attr: "map_of (set_attr k v as) = (map_of as)(k \<mapsto> v)"
  by (induction as) (auto simp: fun_eq_iff)

lemma participant_node_props:
  "tag (participant_node env bytes extra jid) = ''to''"
  "attr (participant_node env bytes extra jid) ''jid'' = Some jid"
  by (simp_all add: participant_node_def Let_def attr_def)

lemma participant_nodes_jids:
  "List.map_filter (\<lambda>n. attr n ''jid'') (map (participant_node env bytes extra) jids) = jids"
  by (induction jids) (simp_all add: participant_node_props map_filter_simps)

lemma createParticipantNodes_nodes:
  "\<forall>n \<in> set (fst (createParticipantNodes env jids m extra)). tag n = ''to''"
  "List.map_filter (\<lambda>n. attr n ''jid'') (fst (createParticipantNodes env jids m extra)) = jids"
  by (simp_all add: createParticipantNodes_def Let_def participant_node_props participant_nodes_jids)

subsection \<open>The assembled stanza\<close>

lemma to_nodes_assemble:
  assumes "assemble_stanza env msg opts msgId dest additional ps content0 flag = Inr stanza"
    and "\<forall>n \<in> set content0. tag n \<noteq> ''participants''"
    and "\<forall>p \<in> set ps. tag p = ''to''"
  shows "to_nodes stanza = ps"
  using assms
  by (auto simp: assemble_stanza_def Let_def to_nodes_def children_def filter_id_conv
      split: option.splits sum.splits if_splits)


lemma attrs_assemble:
  assumes "assemble_stanza env msg opts msgId dest additional ps content0 flag = Inr stanza"
  shows "attrs stanza = stanza_attrs env opts msgId dest additional"
  using assms
  by (auto simp: assemble_stanza_def Let_def split: option.splits sum.splits if_splits)
subsection \<open>What a relay that completes went through\<close>

lemma query_effect:
  assumes "query env node s = Inr (result, s')"
  shows "\<exists>sent. queries s' = queries s @ [sent] \<and> attr sent ''xmlns'' = attr node ''xmlns''"
    and "userDevicesCache s' = userDevicesCache s"
    and "senderKeyMemory s' = senderKeyMemory s"
    and "sentNodes s' = sentNodes s"
    and "wsOpen s' = wsOpen s"
  using assms
  by (auto simp: query_def Let_def attr_def map_of_set_attr split: if_splits option.splits)

lemma assertSessions_effect:
  assumes "assertSessions env jids force s = Inr (fetched, s')"
  shows "usync_queries s' = usync_queries s"
    and "userDevicesCache s' = userDevicesCache s"
    and "senderKeyMemory s' = senderKeyMemory s"
    and "sentNodes s' = sentNodes s"
    and "wsOpen s' = wsOpen s"
proof -
  let ?iq = "BinaryNode ''iq''
       [(''xmlns'', ''encrypt''), (''type'', ''get''), (''to'', S_WHATSAPP_NET env)]
       (Children
         [BinaryNode ''key'' []
            (Children (map (\<lambda>jid. BinaryNode ''user'' [(''jid'', jid)] Absent)
                         (if force then jids else filter (\<lambda>jid. \<not> hasSession env jid) jids)))])"
  have x: "attr ?iq ''xmlns'' = Some ''encrypt''"
    by (simp add: attr_def)
  have "s' = s \<or> (\<exists>result. query env ?iq s = Inr (result, s'))"
    using assms by (auto simp: assertSessions_def Let_def split: if_splits sum.splits)
  then show "usync_queries s' = usync_queries s"
    and "userDevicesCache s' = userDevicesCache s"
    and "senderKeyMemory s' = senderKeyMemory s"
    and "sentNodes s' = sentNodes s"
    and "wsOpen s' = wsOpen s"
    using query_effect [of env ?iq s _ s'] x by (auto simp: usync_queries_def)
qed

lemma relayMessage_InrD:
  assumes "relayMessage env jid msg opts s = Inr (msgId, s')"
  shows "\<exists>decoded devices0 stanza s1.
           jidDecode env (Some jid) = Some decoded
         \<and> participant_devices env opts = Inr devices0
         \<and> relay_stanza env jid decoded msg opts devices0 s = Inr (stanza, s1)
         \<and> s' = s1\<lparr> sentNodes := sentNodes s1 @ [stanza] \<rparr>
         \<and> msgId = message_id_of env opts"
  using assms
  by (auto simp: relayMessage_def sendNode_def split: option.splits sum.splits if_splits)

lemma relay_stanza_InrD:
  assumes "relay_stanza env jid decoded msg opts devices0 s = Inr (stanza, s1)"
  shows "\<exists>ps content0 flag.
           (if server decoded = ''g.us''
            then relay_group env jid (destination_of env decoded) msg opts devices0 s
            else relay_direct env jid (user decoded) (destination_of env decoded) msg opts devices0 s)
             = Inr (ps, content0, flag, s1)
         \<and> assemble_stanza env msg opts (message_id_of env opts) (destination_of env decoded)
              (additional_of opts (server decoded = ''g.us'')) ps content0 flag = Inr stanza"
  using assms
  unfolding relay_stanza_def Let_def
  by (auto split: sum.splits prod.splits)

lemma relay_direct_InrD:
  assumes "relay_direct env jid usr dest msg opts devices0 s = Inr (ps, content0, flag, s2)"
  shows "\<exists>me devices s1 fetched.
           jidDecode env (Some (meId env)) = Some me
         \<and> direct_devices env jid usr (user me) opts devices0 s = Inr (devices, s1)
         \<and> assertSessions env (map (device_jid env) devices) False s1 = Inr (fetched, s2)
         \<and> ps = fst (createParticipantNodes env
                       (map (device_jid env) (filter (\<lambda>d. user d = user me) devices))
                       (DeviceSentMessage dest msg) (media_attrs msg))
                @ fst (createParticipantNodes env
                       (map (device_jid env) (filter (\<lambda>d. user d \<noteq> user me) devices))
                       (Plain msg) (media_attrs msg))
         \<and> content0 = []
         \<and> flag = (snd (createParticipantNodes env
                       (map (device_jid env) (filter (\<lambda>d. user d = user me) devices))
                       (DeviceSentMessage dest msg) (media_attrs msg))
                   \<or> snd (createParticipantNodes env
                       (map (device_jid env) (filter (\<lambda>d. user d \<noteq> user me) devices))
                       (Plain msg) (media_attrs msg)))"
  using assms
  unfolding relay_direct_def Let_def
  by (auto split: option.splits sum.splits prod.splits)

lemma relay_group_InrD:
  assumes "relay_group env jid dest msg opts devices0 s = Inr (ps, content0, flag, s3)"
  shows "\<exists>devices s1 s2.
           group_devices env jid opts devices0 s = Inr (devices, s1)
         \<and> (fst (sender_key_loop env opts s jid devices) = [] \<and> s2 = s1
              \<or> fst (sender_key_loop env opts s jid devices) \<noteq> []
                \<and> (\<exists>fetched. assertSessions env (fst (sender_key_loop env opts s jid devices))
                                False s1 = Inr (fetched, s2)))
         \<and> ps = (if fst (sender_key_loop env opts s jid devices) = [] then []
                  else fst (createParticipantNodes env (fst (sender_key_loop env opts s jid devices))
                         (sender_key_message env dest msg devices) (media_attrs msg)))
         \<and> flag = (fst (sender_key_loop env opts s jid devices) \<noteq> []
                    \<and> snd (createParticipantNodes env (fst (sender_key_loop env opts s jid devices))
                         (sender_key_message env dest msg devices) (media_attrs msg)))
         \<and> content0 = [skmsg_node env dest msg devices]
         \<and> s3 = s2\<lparr> senderKeyMemory :=
                   (senderKeyMemory s2)(jid \<mapsto> snd (sender_key_loop env opts s jid devices)) \<rparr>"
  using assms
  unfolding relay_group_def Let_def
  by (auto split: sum.splits prod.splits if_splits)

text \<open>The loop over the devices of a group.\<close>

lemma sender_key_loop:
  "set (fst (fold (sender_key_step env False) ds (acc, m))) =
     set acc \<union> (device_jid env ` set ds - {j. m j = Some True})"
  "{j. snd (fold (sender_key_step env False) ds (acc, m)) j = Some True} =
     {j. m j = Some True} \<union> device_jid env ` set ds"
  "distinct acc \<Longrightarrow> set acc \<subseteq> {j. m j = Some True} \<Longrightarrow>
     distinct (fst (fold (sender_key_step env False) ds (acc, m)))"
proof (induction ds arbitrary: acc m)
  case Nil
  {
    case 1 show ?case by simp
  next
    case 2 show ?case by simp
  next
    case 3 then show ?case by simp
  }
next
  case (Cons d ds)
  let ?j = "device_jid env d"
  let ?f = "sender_key_step env False"
  have marked: "m ?j = Some True \<Longrightarrow> fold ?f (d # ds) (acc, m) = fold ?f ds (acc, m)"
    for acc and m :: "string \<rightharpoonup> bool"
    by (simp add: sender_key_step_def Let_def)
  have fresh: "m ?j \<noteq> Some True \<Longrightarrow>
      fold ?f (d # ds) (acc, m) = fold ?f ds (acc @ [?j], m(?j \<mapsto> True))"
    for acc and m :: "string \<rightharpoonup> bool"
    by (simp add: sender_key_step_def Let_def)
  {
    case 1
    show ?case
    proof (cases "m ?j = Some True")
      case True
      show ?thesis
        unfolding marked [where m = m, OF True] Cons.IH(1) using True by auto
    next
      case False
      show ?thesis
        unfolding fresh [where m = m, OF False] Cons.IH(1) using False by auto
    qed
  next
    case 2
    show ?case
    proof (cases "m ?j = Some True")
      case True
      show ?thesis
        unfolding marked [where m = m, OF True] Cons.IH(2) using True by auto
    next
      case False
      show ?thesis
        unfolding fresh [where m = m, OF False] Cons.IH(2) by auto
    qed
  next
    case 3
    show ?case
    proof (cases "m ?j = Some True")
      case True
      show ?thesis
        unfolding marked [where m = m, OF True] using 3 by (rule Cons.IH(3))
    next
      case False
      have "distinct (acc @ [?j])"
        using 3 False by auto
      moreover have "set (acc @ [?j]) \<subseteq> {j. (m(?j \<mapsto> True)) j = Some True}"
        using 3(2) by auto
      ultimately show ?thesis
        unfolding fresh [where m = m, OF False] by (rule Cons.IH(3))
    qed
  }
qed

lemma sender_key_loop_retry:
  "fold (sender_key_step env True) ds (acc, m) =
     (acc @ map (device_jid env) ds, fold (\<lambda>d m. m(device_jid env d \<mapsto> True)) ds m)"
  by (induction ds arbitrary: acc m) (simp_all add: sender_key_step_def Let_def)

lemma getUSyncDevices_effect:
  assumes "getUSyncDevices env jids useCache ignoreZero s = Inr (devices, s')"
  shows "senderKeyMemory s' = senderKeyMemory s"
    and "sentNodes s' = sentNodes s"
    and "wsOpen s' = wsOpen s"
proof -
  let ?s1 = "s\<lparr> epoch := epoch s + 1 \<rparr>"
  from assms obtain iq result s2 extracted where
    q: "query env iq ?s1 = Inr (result, s2)"
    and s': "s' = s2\<lparr> userDevicesCache := userDevicesCache s2 ++ deviceMap_of extracted \<rparr>"
    by (auto simp: getUSyncDevices_def Let_def split: sum.splits prod.splits)
  note e = query_effect [OF q]
  show "senderKeyMemory s' = senderKeyMemory s" using e(3) by (simp add: s')
  show "sentNodes s' = sentNodes s" using e(4) by (simp add: s')
  show "wsOpen s' = wsOpen s" using e(5) by (simp add: s')
qed

lemma group_devices_effect:
  assumes "group_devices env jid opts devices0 s = Inr (devices, s')"
  shows "senderKeyMemory s' = senderKeyMemory s"
    and "sentNodes s' = sentNodes s"
    and "wsOpen s' = wsOpen s"
    and "participant opts \<noteq> None \<Longrightarrow> devices = devices0 \<and> s' = s"
  using assms getUSyncDevices_effect
  by (auto simp: group_devices_def Let_def split: if_splits sum.splits prod.splits)

lemma sender_key_marked_stored:
  "participant opts = None \<Longrightarrow>
     {j. stored_sender_keys opts s jid j = Some True} = sender_key_marked s jid"
  by (simp add: sender_key_marked_def stored_sender_keys_def split: option.splits)

lemma participant_devices_none: "participant opts = None \<Longrightarrow> participant_devices env opts = Inr []"
  by (simp add: participant_devices_def)

lemma sender_key_marked_Some:
  "senderKeyMemory s jid = Some m \<Longrightarrow> sender_key_marked s jid = {j. m j = Some True}"
  by (simp add: sender_key_marked_def)

lemma Inr_projr: "\<not> isl r \<Longrightarrow> r = Inr (fst (projr r), snd (projr r))"
  by (cases r) simp_all

lemma query_memory:
  "query env node (s\<lparr> senderKeyMemory := M \<rparr>) =
     map_sum id (\<lambda>rs. (fst rs, (snd rs)\<lparr> senderKeyMemory := M \<rparr>)) (query env node s)"
  by (simp add: query_def Let_def split: option.splits)

lemma assertSessions_memory:
  "assertSessions env jids force (s\<lparr> senderKeyMemory := M \<rparr>) =
     map_sum id (\<lambda>rs. (fst rs, (snd rs)\<lparr> senderKeyMemory := M \<rparr>)) (assertSessions env jids force s)"
  by (simp add: assertSessions_def Let_def query_memory split: sum.splits)

lemma relay_group_retry_memory:
  assumes "participant opts \<noteq> None"
  shows "relay_group env jid dest msg opts devices0 (s\<lparr> senderKeyMemory := (senderKeyMemory s)(jid := m) \<rparr>)
       = relay_group env jid dest msg opts devices0 s"
proof -
  let ?s = "s\<lparr> senderKeyMemory := (senderKeyMemory s)(jid := m) \<rparr>"
  from assms obtain pjid where p: "participant opts = Some pjid"
    by auto
  have gd: "group_devices env jid opts devices0 t = Inr (devices0, t)" for t
    by (simp add: group_devices_def Let_def p)
  have loop: "sender_key_loop env opts ?s jid devices0 = sender_key_loop env opts s jid devices0"
    by (simp add: sender_key_loop_def stored_sender_keys_def p)
  show ?thesis
  proof (cases "fst (sender_key_loop env opts s jid devices0) = []")
    case True
    then show ?thesis
      by (simp add: relay_group_def gd loop Let_def)
  next
    case False
    show ?thesis
    proof (cases "assertSessions env (fst (sender_key_loop env opts s jid devices0)) False s")
      case (Inl e)
      then show ?thesis
        using False by (simp add: relay_group_def gd loop Let_def assertSessions_memory)
    next
      case (Inr r)
      obtain fetched s2 where r: "r = (fetched, s2)" by (cases r)
      have mem: "senderKeyMemory s2 = senderKeyMemory s"
        using assertSessions_effect(3) Inr r by blast
      show ?thesis
        using False Inr r
        by (simp add: relay_group_def gd loop Let_def assertSessions_memory mem)
    qed
  qed
qed

lemma relayMessage_retry_memory:
  assumes dec: "jidDecode env (Some jid) = Some decoded" and grp: "server decoded = ''g.us''"
    and pn: "participant opts \<noteq> None"
  shows "relayMessage env jid msg opts (s\<lparr> senderKeyMemory := (senderKeyMemory s)(jid := stored) \<rparr>)
       = relayMessage env jid msg opts s"
proof -
  have rs: "relay_stanza env jid decoded msg opts devices0
          (s\<lparr> senderKeyMemory := (senderKeyMemory s)(jid := stored) \<rparr>)
      = relay_stanza env jid decoded msg opts devices0 s" for devices0
    unfolding relay_stanza_def Let_def
    by (simp add: grp relay_group_retry_memory [OF pn])
  show ?thesis
    by (simp add: relayMessage_def dec rs cong: sum.case_cong)
qed

lemma set_attr_keys: "fst ` set (set_attr k v as) = insert k (fst ` set as)"
  by (induction as) auto

lemma set_attr_distinct: "distinct (map fst as) \<Longrightarrow> distinct (map fst (set_attr k v as))"
proof (induction as)
  case Nil
  then show ?case by simp
next
  case (Cons kv as)
  then show ?case
    using set_attr_keys [of k v as] by (auto simp: image_iff)
qed

lemma map_of_spread:
  "distinct (map fst extra) \<Longrightarrow> map_of (spread base extra) = map_of base ++ map_of extra"
  unfolding spread_def
proof (induction extra arbitrary: base)
  case Nil
  then show ?case by simp
next
  case (Cons kv extra)
  then have notin: "fst kv \<notin> dom (map_of extra)"
    by (auto simp: dom_map_of_conv_image_fst)
  have "map_of (fold (\<lambda>kv acc. set_attr (fst kv) (snd kv) acc) extra (set_attr (fst kv) (snd kv) base))
      = map_of (set_attr (fst kv) (snd kv) base) ++ map_of extra"
    using Cons by simp
  also have "\<dots> = (map_of base)(fst kv \<mapsto> snd kv) ++ map_of extra"
    by (simp add: map_of_set_attr)
  also have "\<dots> = map_of base ++ map_of (kv # extra)"
    using notin by (cases kv) (auto simp: fun_eq_iff map_add_def split: option.splits)
  finally show ?case by (simp del: map_of.simps)
qed

lemma direct_devices_retry:
  "participant opts \<noteq> None \<Longrightarrow> direct_devices env jid usr meUser opts devices s = Inr (devices, s)"
  by (auto simp: direct_devices_def)

lemma map_filter_append: "List.map_filter f (xs @ ys) = List.map_filter f xs @ List.map_filter f ys"
  by (simp add: List.map_filter_def)

lemma usync_queries_sentNodes: "usync_queries (s\<lparr> sentNodes := x \<rparr>) = usync_queries s"
  by (simp add: usync_queries_def)

text \<open>The device-fanout attribute survives the assembly of the attributes.\<close>

lemma stanza_attrs_device_fanout:
  assumes "participant opts \<noteq> None"
    and "case additionalAttributes opts of None \<Rightarrow> True | Some a \<Rightarrow> distinct (map fst a)"
  shows "map_of (stanza_attrs env opts msgId dest (additional_of opts False)) ''device_fanout''
       = Some ''false''"
proof -
  let ?a0 = "case additionalAttributes opts of None \<Rightarrow> [] | Some a \<Rightarrow> a"
  let ?x = "set_attr ''device_fanout'' ''false'' ?a0"
  from assms(1) obtain pjid where p: "participant opts = Some pjid" by auto
  have add: "additional_of opts False = Some ?x"
    by (simp add: additional_of_def p spread_def)
  have "distinct (map fst ?a0)"
    using assms(2) by (cases "additionalAttributes opts") simp_all
  then have dx: "distinct (map fst ?x)"
    by (rule set_attr_distinct)
  have base: "map_of (spread [(''id'', msgId), (''type'', ''text'')] ?x) ''device_fanout'' = Some ''false''"
    by (simp add: map_of_spread [OF dx] map_of_set_attr map_add_def)
  show ?thesis
    unfolding stanza_attrs_def Let_def add
    by (simp add: p map_of_set_attr base)
qed

subsection \<open>Ciphertext types and the device identity\<close>












subsection \<open>What device discovery returns\<close>

lemma collect_all:
  assumes "\<And>x ys. x \<in> set xs \<Longrightarrow> f x = Inr ys \<Longrightarrow> \<forall>y \<in> set ys. P y"
    and "collect f xs = Inr zs"
  shows "\<forall>z \<in> set zs. P z"
  using assms
proof (induction xs arbitrary: zs)
  case Nil
  then show ?case by simp
next
  case (Cons x xs)
  from Cons.prems(2) obtain ys ws where
    fx: "f x = Inr ys" and rest: "collect f xs = Inr ws" and zs: "zs = ys @ ws"
    by (auto split: sum.splits)
  have "\<forall>y \<in> set ys. P y"
    using Cons.prems(1) [of x ys] fx by simp
  moreover have "\<forall>z \<in> set ws. P z"
  proof (rule Cons.IH [OF _ rest])
    fix x' ys'
    assume "x' \<in> set xs" and "f x' = Inr ys'"
    then show "\<forall>y \<in> set ys'. P y"
      using Cons.prems(1) [of x' ys'] by simp
  qed
  ultimately show ?case
    by (auto simp: zs)
qed

lemma extract_item_ok:
  assumes "extract_item env ex (user me) (device me) item = Inr ds"
  shows "\<forall>d \<in> set ds. extracted_ok env ex me d"
proof (cases "jidDecode env (attr item ''jid'')")
  case None
  then show ?thesis using assms by (simp add: extract_item_def)
next
  case (Some decoded)
  let ?list = "getBinaryNodeChild env (getBinaryNodeChild env (Some item) ''devices'') ''device-list''"
  have made: "\<forall>d \<in> set (map (\<lambda>n. \<lparr> user = user decoded, device = Some (toNumber env (attr n ''id'')) \<rparr>)
             (filter (device_wanted env ex (user me) (device me) (user decoded)) ns)).
           extracted_ok env ex me d" for ns
    unfolding extracted_ok_def by auto
  show ?thesis
  proof (cases "map_option content ?list")
    case None
    then show ?thesis using assms unfolding extract_item_def Let_def Some by simp
  next
    case c: (Some c)
    show ?thesis
    proof (cases c)
      case (Children ns)
      have "ds = map (\<lambda>n. \<lparr> user = user decoded, device = Some (toNumber env (attr n ''id'')) \<rparr>)
             (filter (device_wanted env ex (user me) (device me) (user decoded)) ns)"
        using assms unfolding extract_item_def Let_def Some c Children by simp
      then show ?thesis using made by simp
    next
      case Absent
      then show ?thesis using assms unfolding extract_item_def Let_def Some c by simp
    next
      case (Binary b)
      then show ?thesis using assms unfolding extract_item_def Let_def Some c by simp
    qed
  qed
qed

lemma extract_node_ok:
  assumes "extract_node env ex (user me) (device me) node = Inr ds"
  shows "\<forall>d \<in> set ds. extracted_ok env ex me d"
proof (cases "map_option content (getBinaryNodeChild env (Some node) ''list'')")
  case None
  then show ?thesis using assms by (simp add: extract_node_def)
next
  case c: (Some c)
  show ?thesis
  proof (cases c)
    case (Children items)
    have "collect (extract_item env ex (user me) (device me)) items = Inr ds"
      using assms unfolding extract_node_def c Children by simp
    then show ?thesis
      using collect_all [where f = "extract_item env ex (user me) (device me)"
          and P = "extracted_ok env ex me"] extract_item_ok by blast
  next
    case Absent
    then show ?thesis using assms unfolding extract_node_def c by simp
  next
    case (Binary b)
    then show ?thesis using assms unfolding extract_node_def c by simp
  qed
qed

lemma extractDeviceJids_ok:
  assumes "extractDeviceJids env result myJid ex = Inr ds"
    and "jidDecode env (Some myJid) = Some me"
  shows "\<forall>d \<in> set ds. extracted_ok env ex me d"
proof (cases "content result")
  case (Children nodes)
  with assms have "collect (extract_node env ex (user me) (device me)) nodes = Inr ds"
    by (simp add: extractDeviceJids_def)
  then show ?thesis
    using collect_all [where f = "extract_node env ex (user me) (device me)"
        and P = "extracted_ok env ex me"] extract_node_ok by blast
qed (use assms in \<open>simp_all add: extractDeviceJids_def\<close>)

lemma usync_lookup_cached:
  "\<forall>d \<in> set (fst acc). cached_ok useCache s d \<Longrightarrow>
   \<forall>d \<in> set (fst (fold (usync_lookup env useCache s) jids acc)). cached_ok useCache s d"
proof (induction jids arbitrary: acc)
  case Nil
  then show ?case by simp
next
  case (Cons j jids)
  have "\<forall>d \<in> set (fst (usync_lookup env useCache s j acc)). cached_ok useCache s d"
    using Cons.prems
    by (auto simp: usync_lookup_def Let_def cached_ok_def split: option.splits)
  then show ?case
    using Cons.IH by simp
qed

lemma getUSyncDevices_result:
  assumes "getUSyncDevices env jids useCache ex s = Inr (devices, s')"
    and "jidDecode env (Some (meId env)) = Some me"
  shows "\<exists>cached extracted. devices = cached @ extracted
       \<and> (\<forall>d \<in> set cached. cached_ok useCache s d)
       \<and> (\<forall>d \<in> set extracted. extracted_ok env ex me d)"
proof -
  let ?looked = "fold (usync_lookup env useCache s) (js_set jids) ([], [])"
  from assms(1) obtain result extracted where
    ex: "extractDeviceJids env result (meId env) ex = Inr extracted"
    and devs: "devices = fst ?looked @ extracted"
    by (auto simp: getUSyncDevices_def Let_def split: sum.splits prod.splits)
  have "\<forall>d \<in> set (fst ?looked). cached_ok useCache s d"
    by (rule usync_lookup_cached) simp
  with extractDeviceJids_ok [OF ex assms(2)] devs show ?thesis
    by blast
qed

lemma extracted_ok_nonzero:
  assumes "extracted_ok env True me d"
  shows "device d \<noteq> None \<and> device d \<noteq> Some (Num 0)
       \<and> (user d \<noteq> user me \<or> strict_neq (device me) (device d))"
  using assms by (auto simp: extracted_ok_def device_wanted_def Let_def)

lemma direct_devices_fresh:
  assumes "direct_devices env jid usr meUser opts [] s = Inr (devices, s1)"
    and "participant opts = None"
  shows "\<exists>additional.
           getUSyncDevices env [meId env, jid] (useUserDevicesCache opts \<noteq> Some False) True s
             = Inr (additional, s1)
         \<and> devices = [\<lparr> user = usr, device = None \<rparr>, \<lparr> user = meUser, device = None \<rparr>] @ additional"
  using assms by (auto simp: direct_devices_def split: sum.splits)

text \<open>
  Conversely, every \<open>device\<close> node of the reply that passes the test of the loop is
  extracted.
\<close>

lemma collect_member:
  assumes "collect f xs = Inr zs" and "x \<in> set xs"
  shows "\<exists>ys. f x = Inr ys \<and> set ys \<subseteq> set zs"
  using assms
proof (induction xs arbitrary: zs)
  case Nil
  then show ?case by simp
next
  case (Cons a xs)
  from Cons.prems(1) obtain ys ws where
    fa: "f a = Inr ys" and rest: "collect f xs = Inr ws" and zs: "zs = ys @ ws"
    by (auto split: sum.splits)
  show ?case
  proof (cases "x = a")
    case True
    then show ?thesis using fa by (simp add: zs)
  next
    case False
    with Cons.prems(2) have "x \<in> set xs" by simp
    from Cons.IH [OF rest this] show ?thesis by (auto simp: zs)
  qed
qed

lemma extract_item_complete:
  assumes run: "extract_item env ex myUser myDevice item = Inr ds"
    and dec: "jidDecode env (attr item ''jid'') = Some decoded"
    and list: "map_option content
                 (getBinaryNodeChild env (getBinaryNodeChild env (Some item) ''devices'') ''device-list'')
               = Some (Children ns)"
    and n: "n \<in> set ns"
    and wanted: "device_wanted env ex myUser myDevice (user decoded) n"
  shows "\<lparr> user = user decoded, device = Some (toNumber env (attr n ''id'')) \<rparr> \<in> set ds"
proof -
  have "ds = map (\<lambda>d. \<lparr> user = user decoded, device = Some (toNumber env (attr d ''id'')) \<rparr>)
               (filter (device_wanted env ex myUser myDevice (user decoded)) ns)"
    using run unfolding extract_item_def Let_def dec list by simp
  then show ?thesis
    using n wanted by auto
qed

lemma extract_node_complete:
  assumes run: "extract_node env ex myUser myDevice node = Inr ds"
    and items: "map_option content (getBinaryNodeChild env (Some node) ''list'') = Some (Children items)"
    and item: "item \<in> set items"
    and dec: "jidDecode env (attr item ''jid'') = Some decoded"
    and list: "map_option content
                 (getBinaryNodeChild env (getBinaryNodeChild env (Some item) ''devices'') ''device-list'')
               = Some (Children ns)"
    and n: "n \<in> set ns"
    and wanted: "device_wanted env ex myUser myDevice (user decoded) n"
  shows "\<lparr> user = user decoded, device = Some (toNumber env (attr n ''id'')) \<rparr> \<in> set ds"
proof -
  have "collect (extract_item env ex myUser myDevice) items = Inr ds"
    using run unfolding extract_node_def items by simp
  from collect_member [OF this item] obtain ys where
    ys: "extract_item env ex myUser myDevice item = Inr ys" and sub: "set ys \<subseteq> set ds"
    by blast
  from extract_item_complete [OF ys dec list n wanted] sub show ?thesis
    by blast
qed

lemma extractDeviceJids_complete:
  assumes run: "extractDeviceJids env result myJid ex = Inr ds"
    and me: "jidDecode env (Some myJid) = Some me"
    and nodes: "content result = Children nodes"
    and node: "node \<in> set nodes"
    and items: "map_option content (getBinaryNodeChild env (Some node) ''list'') = Some (Children items)"
    and item: "item \<in> set items"
    and dec: "jidDecode env (attr item ''jid'') = Some decoded"
    and list: "map_option content
                 (getBinaryNodeChild env (getBinaryNodeChild env (Some item) ''devices'') ''device-list'')
               = Some (Children ns)"
    and n: "n \<in> set ns"
    and wanted: "device_wanted env ex (user me) (device me) (user decoded) n"
  shows "\<lparr> user = user decoded, device = Some (toNumber env (attr n ''id'')) \<rparr> \<in> set ds"
proof -
  have "collect (extract_node env ex (user me) (device me)) nodes = Inr ds"
    using run unfolding extractDeviceJids_def me nodes by simp
  from collect_member [OF this node] obtain ys where
    ys: "extract_node env ex (user me) (device me) node = Inr ys" and sub: "set ys \<subseteq> set ds"
    by blast
  from extract_node_complete [OF ys items item dec list n wanted] sub show ?thesis
    by blast
qed

section \<open>Claims about the relay\<close>

text \<open>
  C1. For every relay to a group without an explicit participant that completes: let
  \<open>D\<close> be the set of device jids recorded in sender-key-memory for the group when the
  relay starts (what earlier sends distributed the sender key to), and \<open>D'\<close> the device
  set of this relay. The per-device sender-key distribution nodes of the stanza are
  addressed exactly to \<open>D' - D\<close>, once each (so to no device in \<open>D\<close>, and there is no
  such node at all when \<open>D' \<subseteq> D\<close>), and afterwards sender-key-memory for the group
  holds \<open>D \<union> D'\<close>. Each of these nodes is the node that \<open>createParticipantNodes\<close>
  makes for its recipient from the sender-key distribution message, that is from the
  \<open>senderKeyDistributionMessage\<close> which \<open>encryptGroupMessage\<close> returned for the
  encoded message and the group: its \<open>enc\<close> child carries what \<open>encryptMessage\<close>
  gives, for that recipient, for the encoded distribution message.
\<close>

theorem sender_key_economy:
  assumes rel: "relayMessage env jid msg opts s = Inr (msgId, s')"
    and dec: "jidDecode env (Some jid) = Some decoded"
    and grp: "server decoded = ''g.us''"
    and np: "participant opts = None"
  shows "\<exists>devices s1.
           group_devices env jid opts [] s = Inr (devices, s1)
         \<and> set (recipient_jids (last (sentNodes s'))) =
             device_jid env ` set devices - sender_key_marked s jid
         \<and> distinct (recipient_jids (last (sentNodes s')))
         \<and> length (to_nodes (last (sentNodes s'))) = length (recipient_jids (last (sentNodes s')))
         \<and> (device_jid env ` set devices \<subseteq> sender_key_marked s jid
              \<longrightarrow> to_nodes (last (sentNodes s')) = [])
         \<and> sender_key_marked s' jid = sender_key_marked s jid \<union> device_jid env ` set devices
         \<and> to_nodes (last (sentNodes s')) =
             fst (createParticipantNodes env (recipient_jids (last (sentNodes s')))
                    (SenderKeyDistributionMessage
                       (snd (encryptGroupMessage env (destination_of env decoded)
                               (encodeWAMessage env
                                  (patchMessageBeforeSending env (Plain msg)
                                     (map (device_jid env) devices)))
                               (meId env)))
                       (destination_of env decoded))
                    (media_attrs msg))
         \<and> to_nodes (last (sentNodes s')) =
             map (\<lambda>j. BinaryNode ''to'' [(''jid'', j)]
                        (Children
                          [BinaryNode ''enc''
                             (spread
                                [(''v'', ''2''),
                                 (''type'',
                                  fst (encryptMessage env j
                                         (encodeWAMessage env
                                            (patchMessageBeforeSending env
                                               (SenderKeyDistributionMessage
                                                  (snd (encryptGroupMessage env (destination_of env decoded)
                                                          (encodeWAMessage env
                                                             (patchMessageBeforeSending env (Plain msg)
                                                                (map (device_jid env) devices)))
                                                          (meId env)))
                                                  (destination_of env decoded))
                                               (recipient_jids (last (sentNodes s')))))))]
                                (case media_attrs msg of None \<Rightarrow> [] | Some a \<Rightarrow> a))
                             (Binary
                                (snd (encryptMessage env j
                                        (encodeWAMessage env
                                           (patchMessageBeforeSending env
                                              (SenderKeyDistributionMessage
                                                 (snd (encryptGroupMessage env (destination_of env decoded)
                                                         (encodeWAMessage env
                                                            (patchMessageBeforeSending env (Plain msg)
                                                               (map (device_jid env) devices)))
                                                         (meId env)))
                                                 (destination_of env decoded))
                                              (recipient_jids (last (sentNodes s'))))))))]))
               (recipient_jids (last (sentNodes s')))"
proof -
  from relayMessage_InrD [OF rel] dec participant_devices_none [OF np]
  obtain stanza s3 where
    st: "relay_stanza env jid decoded msg opts [] s = Inr (stanza, s3)"
    and s': "s' = s3\<lparr> sentNodes := sentNodes s3 @ [stanza] \<rparr>"
    by auto
  from relay_stanza_InrD [OF st] grp obtain ps content0 flag where
    rg: "relay_group env jid (destination_of env decoded) msg opts [] s = Inr (ps, content0, flag, s3)"
    and asm: "assemble_stanza env msg opts (message_id_of env opts) (destination_of env decoded)
              (additional_of opts (server decoded = ''g.us'')) ps content0 flag = Inr stanza"
    by auto
  from relay_group_InrD [OF rg] obtain devices s1 s2 where
    gd: "group_devices env jid opts [] s = Inr (devices, s1)"
    and ps: "ps = (if fst (sender_key_loop env opts s jid devices) = [] then []
                   else fst (createParticipantNodes env (fst (sender_key_loop env opts s jid devices))
                          (sender_key_message env (destination_of env decoded) msg devices)
                          (media_attrs msg)))"
    and c0: "content0 = [skmsg_node env (destination_of env decoded) msg devices]"
    and s3: "s3 = s2\<lparr> senderKeyMemory :=
                (senderKeyMemory s2)(jid \<mapsto> snd (sender_key_loop env opts s jid devices)) \<rparr>"
    by blast
  let ?loop = "sender_key_loop env opts s jid devices"
  have loop: "?loop = fold (sender_key_step env False) devices ([], stored_sender_keys opts s jid)"
    by (simp add: sender_key_loop_def np)
  note marked = sender_key_marked_stored [OF np, of s jid]
  have last: "last (sentNodes s') = stanza"
    by (simp add: s')
  have tags: "\<forall>p \<in> set ps. tag p = ''to''"
    using createParticipantNodes_nodes(1) by (simp add: ps)
  have tn: "to_nodes stanza = ps"
    using to_nodes_assemble [OF asm _ tags] by (simp add: c0 skmsg_node_def)
  have jids: "recipient_jids stanza = fst ?loop"
    unfolding recipient_jids_def tn ps
    by (simp add: createParticipantNodes_nodes(2) map_filter_simps)
  have len: "length (to_nodes stanza) = length (fst ?loop)"
    unfolding tn ps by (simp add: createParticipantNodes_def Let_def)
  have set: "set (fst ?loop) = device_jid env ` set devices - sender_key_marked s jid"
    unfolding loop sender_key_loop(1) marked by simp
  have dist: "distinct (fst ?loop)"
    unfolding loop by (rule sender_key_loop(3)) simp_all
  have marks: "{j. snd ?loop j = Some True} = sender_key_marked s jid \<union> device_jid env ` set devices"
    unfolding loop sender_key_loop(2) marked by simp
  have "senderKeyMemory s' jid = Some (snd ?loop)"
    by (simp add: s' s3)
  then have "sender_key_marked s' jid = {j. snd ?loop j = Some True}"
    by (rule sender_key_marked_Some)
  with marks have mem: "sender_key_marked s' jid = sender_key_marked s jid \<union> device_jid env ` set devices"
    by (simp only:)
  have none: "to_nodes stanza = []" if "device_jid env ` set devices \<subseteq> sender_key_marked s jid"
  proof -
    from that have "device_jid env ` set devices - sender_key_marked s jid = {}"
      by (simp only: Diff_eq_empty_iff)
    with set have "set (fst ?loop) = {}" by (simp only:)
    then have "fst ?loop = []" by simp
    then show ?thesis by (simp add: tn ps)
  qed
  let ?skdm = "SenderKeyDistributionMessage
                 (snd (encryptGroupMessage env (destination_of env decoded)
                         (encodeWAMessage env
                            (patchMessageBeforeSending env (Plain msg)
                               (map (device_jid env) devices)))
                         (meId env)))
                 (destination_of env decoded)"
  have skm: "sender_key_message env (destination_of env decoded) msg devices = ?skdm"
    by (simp add: sender_key_message_def group_encrypted_def Let_def)
  have made: "to_nodes stanza =
      fst (createParticipantNodes env (recipient_jids stanza) ?skdm (media_attrs msg))"
    unfolding jids tn ps skm by (simp add: createParticipantNodes_def Let_def)
  have nodes: "to_nodes stanza =
      map (\<lambda>j. BinaryNode ''to'' [(''jid'', j)]
                 (Children
                   [BinaryNode ''enc''
                      (spread
                         [(''v'', ''2''),
                          (''type'',
                           fst (encryptMessage env j
                                  (encodeWAMessage env
                                     (patchMessageBeforeSending env ?skdm (recipient_jids stanza)))))]
                         (case media_attrs msg of None \<Rightarrow> [] | Some a \<Rightarrow> a))
                      (Binary
                         (snd (encryptMessage env j
                                 (encodeWAMessage env
                                    (patchMessageBeforeSending env ?skdm (recipient_jids stanza))))))]))
        (recipient_jids stanza)"
    unfolding made by (simp add: createParticipantNodes_def participant_node_def Let_def)
  show ?thesis
    unfolding last
  proof (intro exI conjI impI)
    show "to_nodes stanza =
      fst (createParticipantNodes env (recipient_jids stanza) ?skdm (media_attrs msg))"
      by (rule made)
    show "to_nodes stanza =
      map (\<lambda>j. BinaryNode ''to'' [(''jid'', j)]
                 (Children
                   [BinaryNode ''enc''
                      (spread
                         [(''v'', ''2''),
                          (''type'',
                           fst (encryptMessage env j
                                  (encodeWAMessage env
                                     (patchMessageBeforeSending env ?skdm (recipient_jids stanza)))))]
                         (case media_attrs msg of None \<Rightarrow> [] | Some a \<Rightarrow> a))
                      (Binary
                         (snd (encryptMessage env j
                                 (encodeWAMessage env
                                    (patchMessageBeforeSending env ?skdm (recipient_jids stanza))))))]))
        (recipient_jids stanza)"
      by (rule nodes)
    show "group_devices env jid opts [] s = Inr (devices, s1)" by (rule gd)
    show "set (recipient_jids stanza) = device_jid env ` set devices - sender_key_marked s jid"
      unfolding jids by (rule set)
    show "distinct (recipient_jids stanza)"
      unfolding jids by (rule dist)
    show "length (to_nodes stanza) = length (recipient_jids stanza)"
      unfolding jids by (rule len)
    show "to_nodes stanza = []" if "device_jid env ` set devices \<subseteq> sender_key_marked s jid"
      using that by (rule none)
    show "sender_key_marked s' jid = sender_key_marked s jid \<union> device_jid env ` set devices"
      by (rule mem)
  qed
qed

theorem sender_key_economy_witness:
  "group_send_3 = Inr (fst (projr group_send_3), snd (projr group_send_3))
   \<and> jidDecode (example_env example_directory_later []) (Some ''120363@g.us'') =
       Some \<lparr> user = ''120363'', device = None, server = ''g.us'' \<rparr>
   \<and> participant uncached_options = None
   \<and> recipient_jids (last (sentNodes (snd (projr group_send_1)))) =
       [''111@s.whatsapp.net'', ''111:1@s.whatsapp.net'', ''222@s.whatsapp.net'']
   \<and> to_nodes (last (sentNodes (snd (projr group_send_2)))) = []
   \<and> recipient_jids (last (sentNodes (snd (projr group_send_3)))) = [''222:2@s.whatsapp.net'']
   \<and> distinct (recipient_jids (last (sentNodes (snd (projr group_send_3)))))
   \<and> length (to_nodes (last (sentNodes (snd (projr group_send_3))))) =
       length (recipient_jids (last (sentNodes (snd (projr group_send_3)))))
   \<and> to_nodes (last (sentNodes (snd (projr group_send_3)))) =
       [BinaryNode ''to'' [(''jid'', ''222:2@s.whatsapp.net'')]
          (Children
            [BinaryNode ''enc'' [(''v'', ''2''), (''type'', ''pkmsg'')]
               (Binary ''to 222:2@s.whatsapp.net: key sender key of 120363@g.us'')])]"
proof -
  have "\<not> isl group_send_3"
    by code_simp
  then have rel: "relayMessage (example_env example_directory_later []) ''120363@g.us'' text_message
       uncached_options (snd (projr group_send_2)) =
     Inr (fst (projr group_send_3), snd (projr group_send_3))"
    unfolding group_send_3_def by (rule Inr_projr)
  have dec: "jidDecode (example_env example_directory_later []) (Some ''120363@g.us'') =
       Some \<lparr> user = ''120363'', device = None, server = ''g.us'' \<rparr>"
    by code_simp
  have grp: "server \<lparr> user = ''120363'', device = None, server = ''g.us'' \<rparr> = ''g.us''"
    by simp
  have np: "participant uncached_options = None"
    by code_simp
  have s1: "recipient_jids (last (sentNodes (snd (projr group_send_1)))) =
       [''111@s.whatsapp.net'', ''111:1@s.whatsapp.net'', ''222@s.whatsapp.net'']"
    by code_simp
  have s2: "to_nodes (last (sentNodes (snd (projr group_send_2)))) = []"
    by code_simp
  have s3: "recipient_jids (last (sentNodes (snd (projr group_send_3)))) = [''222:2@s.whatsapp.net'']"
    by code_simp
  have node: "to_nodes (last (sentNodes (snd (projr group_send_3)))) =
       [BinaryNode ''to'' [(''jid'', ''222:2@s.whatsapp.net'')]
          (Children
            [BinaryNode ''enc'' [(''v'', ''2''), (''type'', ''pkmsg'')]
               (Binary ''to 222:2@s.whatsapp.net: key sender key of 120363@g.us'')])]"
    by code_simp
  from sender_key_economy [OF rel dec grp np]
  have "distinct (recipient_jids (last (sentNodes (snd (projr group_send_3)))))
      \<and> length (to_nodes (last (sentNodes (snd (projr group_send_3))))) =
        length (recipient_jids (last (sentNodes (snd (projr group_send_3)))))"
    by blast
  with rel dec np s1 s2 s3 node show ?thesis
    unfolding group_send_3_def [symmetric] by blast
qed

text \<open>
  C10. For every relay to a group with a participant given (a group retry) that
  completes: the sender-key-memory entry of the group is not read, the relay does the same
  whatever is stored there; the map stored at the end marks exactly the device the retry
  is addressed to, so every other device jid recorded by earlier sends to the group is
  gone; and the only per-device node of the stanza is for that device.
\<close>

theorem group_retry_memory:
  assumes rel: "relayMessage env jid msg opts s = Inr (msgId, s')"
    and dec: "jidDecode env (Some jid) = Some decoded"
    and grp: "server decoded = ''g.us''"
    and p: "participant opts = Some pjid"
    and pd: "jidDecode env (Some pjid) = Some target"
  shows "senderKeyMemory s' jid =
           Some [device_jid env \<lparr> user = user target, device = device target \<rparr> \<mapsto> True]
       \<and> sender_key_marked s' jid = {device_jid env \<lparr> user = user target, device = device target \<rparr>}
       \<and> recipient_jids (last (sentNodes s')) =
           [device_jid env \<lparr> user = user target, device = device target \<rparr>]
       \<and> (\<forall>stored.
             relayMessage env jid msg opts
               (s\<lparr> senderKeyMemory := (senderKeyMemory s)(jid := stored) \<rparr>) = Inr (msgId, s'))"
proof -
  let ?d = "\<lparr> user = user target, device = device target \<rparr>"
  let ?j = "device_jid env ?d"
  have pn: "participant opts \<noteq> None"
    by (simp add: p)
  have d0: "participant_devices env opts = Inr [?d]"
    by (simp add: participant_devices_def p pd)
  from relayMessage_InrD [OF rel] dec d0
  obtain stanza s3 where
    st: "relay_stanza env jid decoded msg opts [?d] s = Inr (stanza, s3)"
    and s': "s' = s3\<lparr> sentNodes := sentNodes s3 @ [stanza] \<rparr>"
    by auto
  from relay_stanza_InrD [OF st] grp obtain ps content0 flag where
    rg: "relay_group env jid (destination_of env decoded) msg opts [?d] s = Inr (ps, content0, flag, s3)"
    and asm: "assemble_stanza env msg opts (message_id_of env opts) (destination_of env decoded)
              (additional_of opts (server decoded = ''g.us'')) ps content0 flag = Inr stanza"
    by auto
  from relay_group_InrD [OF rg] obtain devices s1 s2 where
    gd: "group_devices env jid opts [?d] s = Inr (devices, s1)"
    and ps: "ps = (if fst (sender_key_loop env opts s jid devices) = [] then []
                   else fst (createParticipantNodes env (fst (sender_key_loop env opts s jid devices))
                          (sender_key_message env (destination_of env decoded) msg devices)
                          (media_attrs msg)))"
    and c0: "content0 = [skmsg_node env (destination_of env decoded) msg devices]"
    and s3: "s3 = s2\<lparr> senderKeyMemory :=
                (senderKeyMemory s2)(jid \<mapsto> snd (sender_key_loop env opts s jid devices)) \<rparr>"
    by blast
  have devs: "devices = [?d]"
    using group_devices_effect(4) [OF gd pn] by simp
  have loop: "sender_key_loop env opts s jid devices = ([?j], [?j \<mapsto> True])"
    by (simp add: devs sender_key_loop_def stored_sender_keys_def p sender_key_step_def Let_def)
  have mem: "senderKeyMemory s' jid = Some [?j \<mapsto> True]"
    by (simp add: s' s3 loop)
  have marked: "sender_key_marked s' jid = {?j}"
    unfolding sender_key_marked_Some [OF mem] by auto
  have tags: "\<forall>p \<in> set ps. tag p = ''to''"
    using createParticipantNodes_nodes(1) by (simp add: ps)
  have tn: "to_nodes stanza = ps"
    using to_nodes_assemble [OF asm _ tags] by (simp add: c0 skmsg_node_def)
  have jids: "recipient_jids stanza = [?j]"
    unfolding recipient_jids_def tn ps
    by (simp add: loop createParticipantNodes_nodes(2))
  have last: "last (sentNodes s') = stanza"
    by (simp add: s')
  have same: "relayMessage env jid msg opts
      (s\<lparr> senderKeyMemory := (senderKeyMemory s)(jid := stored) \<rparr>) = Inr (msgId, s')" for stored
    unfolding relayMessage_retry_memory [OF dec grp pn] by (rule rel)
  show ?thesis
    unfolding last using mem marked jids same by simp
qed

theorem group_retry_memory_witness:
  "group_retry = Inr (fst (projr group_retry), snd (projr group_retry))
   \<and> jidDecode (example_env example_directory []) (Some ''120363@g.us'') =
       Some \<lparr> user = ''120363'', device = None, server = ''g.us'' \<rparr>
   \<and> participant (retry_options ''111:1@s.whatsapp.net'') = Some ''111:1@s.whatsapp.net''
   \<and> jidDecode (example_env example_directory []) (Some ''111:1@s.whatsapp.net'') =
       Some \<lparr> user = ''111'', device = Some (Num 1), server = ''s.whatsapp.net'' \<rparr>
   \<and> map_option (\<lambda>m. (m ''111@s.whatsapp.net'', m ''111:1@s.whatsapp.net'', m ''222@s.whatsapp.net''))
         (senderKeyMemory (snd (projr group_send_1)) ''120363@g.us'') =
       Some (Some True, Some True, Some True)
   \<and> senderKeyMemory (snd (projr group_retry)) ''120363@g.us'' =
       Some [''111:1@s.whatsapp.net'' \<mapsto> True]
   \<and> recipient_jids (last (sentNodes (snd (projr group_retry)))) = [''111:1@s.whatsapp.net'']"
proof -
  have "\<not> isl group_retry"
    by code_simp
  then have rel: "relayMessage (example_env example_directory []) ''120363@g.us'' text_message
       (retry_options ''111:1@s.whatsapp.net'') (snd (projr group_send_1)) =
     Inr (fst (projr group_retry), snd (projr group_retry))"
    unfolding group_retry_def by (rule Inr_projr)
  have dec: "jidDecode (example_env example_directory []) (Some ''120363@g.us'') =
       Some \<lparr> user = ''120363'', device = None, server = ''g.us'' \<rparr>"
    by code_simp
  have grp: "server \<lparr> user = ''120363'', device = None, server = ''g.us'' \<rparr> = ''g.us''"
    by simp
  have p: "participant (retry_options ''111:1@s.whatsapp.net'') = Some ''111:1@s.whatsapp.net''"
    by code_simp
  have pd: "jidDecode (example_env example_directory []) (Some ''111:1@s.whatsapp.net'') =
       Some \<lparr> user = ''111'', device = Some (Num 1), server = ''s.whatsapp.net'' \<rparr>"
    by code_simp
  have j: "device_jid (example_env example_directory [])
       \<lparr> user = user \<lparr> user = ''111'', device = Some (Num 1), server = ''s.whatsapp.net'' \<rparr>,
         device = device \<lparr> user = ''111'', device = Some (Num 1), server = ''s.whatsapp.net'' \<rparr> \<rparr>
     = ''111:1@s.whatsapp.net''"
    by code_simp
  have before: "map_option (\<lambda>m. (m ''111@s.whatsapp.net'', m ''111:1@s.whatsapp.net'', m ''222@s.whatsapp.net''))
         (senderKeyMemory (snd (projr group_send_1)) ''120363@g.us'') =
       Some (Some True, Some True, Some True)"
    by code_simp
  note c = group_retry_memory [OF rel dec grp p pd, unfolded j]
  from c have after: "senderKeyMemory (snd (projr group_retry)) ''120363@g.us'' =
       Some [''111:1@s.whatsapp.net'' \<mapsto> True]"
    by (rule conjunct1)
  from c have sent: "recipient_jids (last (sentNodes (snd (projr group_retry)))) =
       [''111:1@s.whatsapp.net'']"
    by blast
  from rel dec p pd before after sent show ?thesis
    unfolding group_retry_def [symmetric] by blast
qed

text \<open>
  C3. For every relay to a JID that is not a group, with a participant \<open>p\<close> given (the
  retry-receipt case), that completes: the message stanza carries the attribute
  \<open>device_fanout = false\<close>; it has exactly one per-device \<open>to\<close> node, addressed to the
  device \<open>p\<close>; and no USync query is sent. The additional attributes given are an
  object, so their keys are distinct.
\<close>

theorem retry_isolation:
  assumes rel: "relayMessage env jid msg opts s = Inr (msgId, s')"
    and dec: "jidDecode env (Some jid) = Some decoded"
    and ngrp: "server decoded \<noteq> ''g.us''"
    and p: "participant opts = Some pjid"
    and pd: "jidDecode env (Some pjid) = Some target"
    and wf: "case additionalAttributes opts of None \<Rightarrow> True | Some a \<Rightarrow> distinct (map fst a)"
  shows "attr (last (sentNodes s')) ''device_fanout'' = Some ''false''
       \<and> recipient_jids (last (sentNodes s')) =
           [device_jid env \<lparr> user = user target, device = device target \<rparr>]
       \<and> length (to_nodes (last (sentNodes s'))) = 1
       \<and> usync_queries s' = usync_queries s"
proof -
  let ?d = "\<lparr> user = user target, device = device target \<rparr>"
  let ?j = "device_jid env ?d"
  have pn: "participant opts \<noteq> None"
    by (simp add: p)
  have d0: "participant_devices env opts = Inr [?d]"
    by (simp add: participant_devices_def p pd)
  from relayMessage_InrD [OF rel] dec d0
  obtain stanza s3 where
    st: "relay_stanza env jid decoded msg opts [?d] s = Inr (stanza, s3)"
    and s': "s' = s3\<lparr> sentNodes := sentNodes s3 @ [stanza] \<rparr>"
    by auto
  from relay_stanza_InrD [OF st] ngrp obtain ps content0 flag where
    rd: "relay_direct env jid (user decoded) (destination_of env decoded) msg opts [?d] s
           = Inr (ps, content0, flag, s3)"
    and asm: "assemble_stanza env msg opts (message_id_of env opts) (destination_of env decoded)
              (additional_of opts False) ps content0 flag = Inr stanza"
    by auto
  from relay_direct_InrD [OF rd] obtain me devices s1 fetched where
    me: "jidDecode env (Some (meId env)) = Some me"
    and dd: "direct_devices env jid (user decoded) (user me) opts [?d] s = Inr (devices, s1)"
    and as: "assertSessions env (map (device_jid env) devices) False s1 = Inr (fetched, s3)"
    and ps: "ps = fst (createParticipantNodes env
                       (map (device_jid env) (filter (\<lambda>d. user d = user me) devices))
                       (DeviceSentMessage (destination_of env decoded) msg) (media_attrs msg))
                @ fst (createParticipantNodes env
                       (map (device_jid env) (filter (\<lambda>d. user d \<noteq> user me) devices))
                       (Plain msg) (media_attrs msg))"
    and c0: "content0 = []"
    and flag: "flag = (snd (createParticipantNodes env
                       (map (device_jid env) (filter (\<lambda>d. user d = user me) devices))
                       (DeviceSentMessage (destination_of env decoded) msg) (media_attrs msg))
                   \<or> snd (createParticipantNodes env
                       (map (device_jid env) (filter (\<lambda>d. user d \<noteq> user me) devices))
                       (Plain msg) (media_attrs msg)))"
    by (elim exE conjE) (rule that)
  have devs: "devices = [?d]" and s1: "s1 = s"
    using dd by (simp_all add: direct_devices_retry [OF pn])
  have tags: "\<forall>p \<in> set ps. tag p = ''to''"
    using createParticipantNodes_nodes(1) by (auto simp: ps)
  have tn: "to_nodes stanza = ps"
    using to_nodes_assemble [OF asm _ tags] by (simp add: c0)
  have jids: "recipient_jids stanza = [?j]"
    unfolding recipient_jids_def tn ps map_filter_append createParticipantNodes_nodes(2)
    by (simp add: devs)
  have len: "length (to_nodes stanza) = 1"
    unfolding tn ps by (simp add: createParticipantNodes_def Let_def devs)
  have fan: "attr stanza ''device_fanout'' = Some ''false''"
    unfolding attr_def attrs_assemble [OF asm]
    by (rule stanza_attrs_device_fanout [OF pn wf])
  have uq: "usync_queries s' = usync_queries s"
    using assertSessions_effect(1) [OF as] by (simp add: s' s1 usync_queries_sentNodes)
  have last: "last (sentNodes s') = stanza"
    by (simp add: s')
  show ?thesis
    unfolding last using fan jids len uq by simp
qed

theorem retry_isolation_witness:
  "direct_retry = Inr (fst (projr direct_retry), snd (projr direct_retry))
   \<and> jidDecode (example_env example_directory []) (Some ''111@s.whatsapp.net'') =
       Some \<lparr> user = ''111'', device = None, server = ''s.whatsapp.net'' \<rparr>
   \<and> participant (retry_options ''111:1@s.whatsapp.net'') = Some ''111:1@s.whatsapp.net''
   \<and> jidDecode (example_env example_directory []) (Some ''111:1@s.whatsapp.net'') =
       Some \<lparr> user = ''111'', device = Some (Num 1), server = ''s.whatsapp.net'' \<rparr>
   \<and> additionalAttributes (retry_options ''111:1@s.whatsapp.net'') = None
   \<and> attr (last (sentNodes (snd (projr direct_retry)))) ''device_fanout'' = Some ''false''
   \<and> recipient_jids (last (sentNodes (snd (projr direct_retry)))) = [''111:1@s.whatsapp.net'']
   \<and> length (to_nodes (last (sentNodes (snd (projr direct_retry))))) = 1
   \<and> usync_queries (snd (projr direct_retry)) = []"
proof -
  have "\<not> isl direct_retry"
    by code_simp
  then have rel: "relayMessage (example_env example_directory []) ''111@s.whatsapp.net'' text_message
       (retry_options ''111:1@s.whatsapp.net'') example_state =
     Inr (fst (projr direct_retry), snd (projr direct_retry))"
    unfolding direct_retry_def by (rule Inr_projr)
  have dec: "jidDecode (example_env example_directory []) (Some ''111@s.whatsapp.net'') =
       Some \<lparr> user = ''111'', device = None, server = ''s.whatsapp.net'' \<rparr>"
    by code_simp
  have ngrp: "server \<lparr> user = ''111'', device = None, server = ''s.whatsapp.net'' \<rparr> \<noteq> ''g.us''"
    by simp
  have p: "participant (retry_options ''111:1@s.whatsapp.net'') = Some ''111:1@s.whatsapp.net''"
    by code_simp
  have pd: "jidDecode (example_env example_directory []) (Some ''111:1@s.whatsapp.net'') =
       Some \<lparr> user = ''111'', device = Some (Num 1), server = ''s.whatsapp.net'' \<rparr>"
    by code_simp
  have none: "additionalAttributes (retry_options ''111:1@s.whatsapp.net'') = None"
    by code_simp
  then have wf: "case additionalAttributes (retry_options ''111:1@s.whatsapp.net'') of
       None \<Rightarrow> True | Some a \<Rightarrow> distinct (map fst a)"
    by simp
  have j: "device_jid (example_env example_directory [])
       \<lparr> user = user \<lparr> user = ''111'', device = Some (Num 1), server = ''s.whatsapp.net'' \<rparr>,
         device = device \<lparr> user = ''111'', device = Some (Num 1), server = ''s.whatsapp.net'' \<rparr> \<rparr>
     = ''111:1@s.whatsapp.net''"
    by code_simp
  have q0: "usync_queries example_state = []"
    by code_simp
  note c = retry_isolation [OF rel dec ngrp p pd wf, unfolded j q0]
  from rel dec p pd none c show ?thesis
    unfolding direct_retry_def [symmetric] by blast
qed



subsection \<open>The recipients of a message to one user\<close>

text \<open>
  For every relay to a JID that is not a group, without a participant, that completes:
  the per-device \<open>to\<close> nodes of the stanza are made, one node per entry, from the list
  that starts with device 0 of the peer and device 0 of the sender's own user (both put
  there by \<open>relayMessage\<close> itself) and goes on with the result of \<open>getUSyncDevices\<close>
  for the sender and the peer. That result is made of devices taken from the user-devices
  cache, when the cache is used, followed by devices of the USync reply; each of the
  latter is a \<open>device\<close> node whose id is not 0, that has a \<open>key-index\<close>, and that is
  not the sending device. The nodes for the sender's own user come first, then the nodes
  for the others, each group in the order of the list.
\<close>

lemma direct_recipients:
  assumes rel: "relayMessage env jid msg opts s = Inr (msgId, s')"
    and dec: "jidDecode env (Some jid) = Some decoded"
    and ngrp: "server decoded \<noteq> ''g.us''"
    and np: "participant opts = None"
  shows "\<exists>me cached extracted s1.
           jidDecode env (Some (meId env)) = Some me
         \<and> getUSyncDevices env [meId env, jid] (useUserDevicesCache opts \<noteq> Some False) True s
             = Inr (cached @ extracted, s1)
         \<and> (\<forall>d \<in> set cached. cached_ok (useUserDevicesCache opts \<noteq> Some False) s d)
         \<and> (\<forall>d \<in> set extracted. extracted_ok env True me d
               \<and> device d \<noteq> None \<and> device d \<noteq> Some (Num 0)
               \<and> (user d \<noteq> user me \<or> strict_neq (device me) (device d)))
         \<and> recipient_jids (last (sentNodes s')) =
             map (device_jid env)
               (filter (\<lambda>d. user d = user me)
                  ([\<lparr> user = user decoded, device = None \<rparr>, \<lparr> user = user me, device = None \<rparr>]
                   @ cached @ extracted))
             @ map (device_jid env)
               (filter (\<lambda>d. user d \<noteq> user me)
                  ([\<lparr> user = user decoded, device = None \<rparr>, \<lparr> user = user me, device = None \<rparr>]
                   @ cached @ extracted))
         \<and> set (recipient_jids (last (sentNodes s'))) =
             device_jid env `
               ({\<lparr> user = user decoded, device = None \<rparr>, \<lparr> user = user me, device = None \<rparr>}
                \<union> set cached \<union> set extracted)
         \<and> length (to_nodes (last (sentNodes s'))) = length (recipient_jids (last (sentNodes s')))"
proof -
  from relayMessage_InrD [OF rel] dec participant_devices_none [OF np]
  obtain stanza s3 where
    st: "relay_stanza env jid decoded msg opts [] s = Inr (stanza, s3)"
    and s': "s' = s3\<lparr> sentNodes := sentNodes s3 @ [stanza] \<rparr>"
    by auto
  from relay_stanza_InrD [OF st] ngrp obtain ps content0 flag where
    rd: "relay_direct env jid (user decoded) (destination_of env decoded) msg opts [] s
           = Inr (ps, content0, flag, s3)"
    and asm: "assemble_stanza env msg opts (message_id_of env opts) (destination_of env decoded)
              (additional_of opts False) ps content0 flag = Inr stanza"
    by auto
  from relay_direct_InrD [OF rd] obtain me devices s1 fetched where
    me: "jidDecode env (Some (meId env)) = Some me"
    and dd: "direct_devices env jid (user decoded) (user me) opts [] s = Inr (devices, s1)"
    and as: "assertSessions env (map (device_jid env) devices) False s1 = Inr (fetched, s3)"
    and ps: "ps = fst (createParticipantNodes env
                       (map (device_jid env) (filter (\<lambda>d. user d = user me) devices))
                       (DeviceSentMessage (destination_of env decoded) msg) (media_attrs msg))
                @ fst (createParticipantNodes env
                       (map (device_jid env) (filter (\<lambda>d. user d \<noteq> user me) devices))
                       (Plain msg) (media_attrs msg))"
    and c0: "content0 = []"
    and flag: "flag = (snd (createParticipantNodes env
                       (map (device_jid env) (filter (\<lambda>d. user d = user me) devices))
                       (DeviceSentMessage (destination_of env decoded) msg) (media_attrs msg))
                   \<or> snd (createParticipantNodes env
                       (map (device_jid env) (filter (\<lambda>d. user d \<noteq> user me) devices))
                       (Plain msg) (media_attrs msg)))"
    by (elim exE conjE) (rule that)
  from direct_devices_fresh [OF dd np] obtain additional where
    us: "getUSyncDevices env [meId env, jid] (useUserDevicesCache opts \<noteq> Some False) True s
           = Inr (additional, s1)"
    and devs: "devices = [\<lparr> user = user decoded, device = None \<rparr>, \<lparr> user = user me, device = None \<rparr>]
                 @ additional"
    by blast
  from getUSyncDevices_result [OF us me] obtain cached extracted where
    add: "additional = cached @ extracted"
    and cached: "\<forall>d \<in> set cached. cached_ok (useUserDevicesCache opts \<noteq> Some False) s d"
    and extracted: "\<forall>d \<in> set extracted. extracted_ok env True me d"
    by blast
  have tags: "\<forall>p \<in> set ps. tag p = ''to''"
    using createParticipantNodes_nodes(1) by (auto simp: ps)
  have tn: "to_nodes stanza = ps"
    using to_nodes_assemble [OF asm _ tags] by (simp add: c0)
  have jids: "recipient_jids stanza =
      map (device_jid env) (filter (\<lambda>d. user d = user me) devices)
      @ map (device_jid env) (filter (\<lambda>d. user d \<noteq> user me) devices)"
    unfolding recipient_jids_def tn ps map_filter_append createParticipantNodes_nodes(2) ..
  have len: "length (to_nodes stanza) = length (recipient_jids stanza)"
    unfolding jids tn ps by (simp add: createParticipantNodes_def Let_def)
  have "set (recipient_jids stanza) = device_jid env ` set devices"
    unfolding jids by auto
  then have set: "set (recipient_jids stanza) =
      device_jid env `
        ({\<lparr> user = user decoded, device = None \<rparr>, \<lparr> user = user me, device = None \<rparr>}
         \<union> set cached \<union> set extracted)"
    by (simp add: devs add Un_assoc)
  have last: "last (sentNodes s') = stanza"
    by (simp add: s')
  have ext: "\<forall>d \<in> set extracted. extracted_ok env True me d
               \<and> device d \<noteq> None \<and> device d \<noteq> Some (Num 0)
               \<and> (user d \<noteq> user me \<or> strict_neq (device me) (device d))"
    using extracted extracted_ok_nonzero by blast
  show ?thesis
    unfolding last
  proof (intro exI conjI)
    show "jidDecode env (Some (meId env)) = Some me" by (rule me)
    show "getUSyncDevices env [meId env, jid] (useUserDevicesCache opts \<noteq> Some False) True s
             = Inr (cached @ extracted, s1)"
      using us by (simp only: add)
    show "\<forall>d \<in> set cached. cached_ok (useUserDevicesCache opts \<noteq> Some False) s d"
      by (rule cached)
    show "\<forall>d \<in> set extracted. extracted_ok env True me d
               \<and> device d \<noteq> None \<and> device d \<noteq> Some (Num 0)
               \<and> (user d \<noteq> user me \<or> strict_neq (device me) (device d))"
      by (rule ext)
    show "recipient_jids stanza =
             map (device_jid env)
               (filter (\<lambda>d. user d = user me)
                  ([\<lparr> user = user decoded, device = None \<rparr>, \<lparr> user = user me, device = None \<rparr>]
                   @ cached @ extracted))
             @ map (device_jid env)
               (filter (\<lambda>d. user d \<noteq> user me)
                  ([\<lparr> user = user decoded, device = None \<rparr>, \<lparr> user = user me, device = None \<rparr>]
                   @ cached @ extracted))"
      using jids by (simp only: devs add)
    show "set (recipient_jids stanza) =
             device_jid env `
               ({\<lparr> user = user decoded, device = None \<rparr>, \<lparr> user = user me, device = None \<rparr>}
                \<union> set cached \<union> set extracted)"
      by (rule set)
    show "length (to_nodes stanza) = length (recipient_jids stanza)"
      by (rule len)
  qed
qed

text \<open>A message to user \<open>111\<close>: the recipients are the two users and device 1 of the peer.\<close>

lemma direct_send_new_recipients:
  "direct_send_new = Inr (fst (projr direct_send_new), snd (projr direct_send_new))
   \<and> jidDecode (example_env example_directory []) (Some ''111@s.whatsapp.net'') =
       Some \<lparr> user = ''111'', device = None, server = ''s.whatsapp.net'' \<rparr>
   \<and> participant plain_options = None
   \<and> fst (projr (getUSyncDevices (example_env example_directory [])
                   [''999:5@s.whatsapp.net'', ''111@s.whatsapp.net''] True True example_state))
       = [\<lparr> user = ''111'', device = Some (Num 1) \<rparr>]
   \<and> set (recipient_jids (last (sentNodes (snd (projr direct_send_new))))) =
       device_jid (example_env example_directory []) `
         {\<lparr> user = ''111'', device = None \<rparr>, \<lparr> user = ''999'', device = None \<rparr>,
          \<lparr> user = ''111'', device = Some (Num 1) \<rparr>}
   \<and> length (to_nodes (last (sentNodes (snd (projr direct_send_new))))) = 3
   \<and> recipient_jids (last (sentNodes (snd (projr direct_send_new)))) =
       [''999@s.whatsapp.net'', ''111@s.whatsapp.net'', ''111:1@s.whatsapp.net'']"
proof -
  let ?env = "example_env example_directory []"
  let ?stanza = "last (sentNodes (snd (projr direct_send_new)))"
  have "\<not> isl direct_send_new"
    by code_simp
  then have rel: "relayMessage ?env ''111@s.whatsapp.net'' text_message plain_options example_state =
     Inr (fst (projr direct_send_new), snd (projr direct_send_new))"
    unfolding direct_send_new_def by (rule Inr_projr)
  have dec: "jidDecode ?env (Some ''111@s.whatsapp.net'') =
       Some \<lparr> user = ''111'', device = None, server = ''s.whatsapp.net'' \<rparr>"
    by code_simp
  have ngrp: "server \<lparr> user = ''111'', device = None, server = ''s.whatsapp.net'' \<rparr> \<noteq> ''g.us''"
    by simp
  have np: "participant plain_options = None"
    by code_simp
  have meId: "meId ?env = ''999:5@s.whatsapp.net''"
    by code_simp
  have cache: "(useUserDevicesCache plain_options \<noteq> Some False) = True"
    by code_simp
  have mev: "jidDecode ?env (Some ''999:5@s.whatsapp.net'') =
       Some \<lparr> user = ''999'', device = Some (Num 5), server = ''s.whatsapp.net'' \<rparr>"
    by code_simp
  have found: "fst (projr (getUSyncDevices ?env
                   [''999:5@s.whatsapp.net'', ''111@s.whatsapp.net''] True True example_state))
       = [\<lparr> user = ''111'', device = Some (Num 1) \<rparr>]"
    by code_simp
  have jids: "recipient_jids ?stanza =
       [''999@s.whatsapp.net'', ''111@s.whatsapp.net'', ''111:1@s.whatsapp.net'']"
    by code_simp
  from direct_recipients [OF rel dec ngrp np, unfolded meId cache]
  obtain me cached extracted s1 where
    me: "jidDecode ?env (Some ''999:5@s.whatsapp.net'') = Some me"
    and us: "getUSyncDevices ?env [''999:5@s.whatsapp.net'', ''111@s.whatsapp.net''] True True
               example_state = Inr (cached @ extracted, s1)"
    and set: "set (recipient_jids ?stanza) =
       device_jid ?env `
         ({\<lparr> user = user \<lparr> user = ''111'', device = None, server = ''s.whatsapp.net'' \<rparr>,
             device = None \<rparr>, \<lparr> user = user me, device = None \<rparr>}
          \<union> set cached \<union> set extracted)"
    and len: "length (to_nodes ?stanza) = length (recipient_jids ?stanza)"
    by blast
  have "me = \<lparr> user = ''999'', device = Some (Num 5), server = ''s.whatsapp.net'' \<rparr>"
    using me unfolding mev by simp
  then have me': "user me = ''999''"
    by simp
  have "cached @ extracted = [\<lparr> user = ''111'', device = Some (Num 1) \<rparr>]"
    using found by (simp add: us)
  then have "set cached \<union> set extracted = {\<lparr> user = ''111'', device = Some (Num 1) \<rparr>}"
    by (metis set_append list.simps(15) empty_set)
  then have set': "set (recipient_jids ?stanza) =
       device_jid ?env `
         {\<lparr> user = ''111'', device = None \<rparr>, \<lparr> user = ''999'', device = None \<rparr>,
          \<lparr> user = ''111'', device = Some (Num 1) \<rparr>}"
    using set by (simp add: me' Un_assoc)
  have len': "length (to_nodes ?stanza) = 3"
    using len by (simp add: jids)
  from rel dec np found set' len' jids show ?thesis
    unfolding direct_send_new_def [symmetric] by blast
qed

text \<open>
  When the peer is the sender's own user, the two entries that \<open>relayMessage\<close> puts
  first are the same, and nothing removes one of them: the first two \<open>to\<close> nodes are
  for the same jid.
\<close>

lemma self_send_recipients:
  assumes rel: "relayMessage env jid msg opts s = Inr (msgId, s')"
    and dec: "jidDecode env (Some jid) = Some decoded"
    and ngrp: "server decoded \<noteq> ''g.us''"
    and np: "participant opts = None"
    and me: "jidDecode env (Some (meId env)) = Some me"
    and same: "user decoded = user me"
  shows "take 2 (recipient_jids (last (sentNodes s'))) =
           [device_jid env \<lparr> user = user me, device = None \<rparr>,
            device_jid env \<lparr> user = user me, device = None \<rparr>]"
    and "\<not> distinct (recipient_jids (last (sentNodes s')))"
proof -
  from direct_recipients [OF rel dec ngrp np] obtain me' cached extracted where
    me': "jidDecode env (Some (meId env)) = Some me'"
    and jids: "recipient_jids (last (sentNodes s')) =
             map (device_jid env)
               (filter (\<lambda>d. user d = user me')
                  ([\<lparr> user = user decoded, device = None \<rparr>, \<lparr> user = user me', device = None \<rparr>]
                   @ cached @ extracted))
             @ map (device_jid env)
               (filter (\<lambda>d. user d \<noteq> user me')
                  ([\<lparr> user = user decoded, device = None \<rparr>, \<lparr> user = user me', device = None \<rparr>]
                   @ cached @ extracted))"
    by blast
  have eq: "me' = me"
    using me me' by simp
  show first: "take 2 (recipient_jids (last (sentNodes s'))) =
           [device_jid env \<lparr> user = user me, device = None \<rparr>,
            device_jid env \<lparr> user = user me, device = None \<rparr>]"
    unfolding jids eq by (simp add: same)
  have "\<not> distinct (take 2 (recipient_jids (last (sentNodes s'))))"
    unfolding first by simp
  then show "\<not> distinct (recipient_jids (last (sentNodes s')))"
    using distinct_take by blast
qed

text \<open>
  C4. The per-device \<open>to\<close> nodes of a relay to one user, without a participant, are to
  be the devices of the sender and of the peer that device discovery reports, less the
  sending device, with no recipient twice. The code does not keep to this for a message
  of an account to its own number. Here the account \<open>999\<close>, on its device 5, sends to
  \<open>999@s.whatsapp.net\<close>: the relay completes, and the stanza has two \<open>to\<close> nodes,
  both for \<open>999@s.whatsapp.net\<close>.
\<close>

theorem self_send_duplicate_recipients:
  "self_send = Inr (fst (projr self_send), snd (projr self_send))
   \<and> participant plain_options = None
   \<and> meId (example_env example_directory []) = ''999:5@s.whatsapp.net''
   \<and> jidDecode (example_env example_directory []) (Some ''999@s.whatsapp.net'') =
       Some \<lparr> user = ''999'', device = None, server = ''s.whatsapp.net'' \<rparr>
   \<and> recipient_jids (last (sentNodes (snd (projr self_send)))) =
       [''999@s.whatsapp.net'', ''999@s.whatsapp.net'']
   \<and> length (to_nodes (last (sentNodes (snd (projr self_send))))) = 2
   \<and> \<not> distinct (recipient_jids (last (sentNodes (snd (projr self_send)))))"
proof -
  have "\<not> isl self_send"
    by code_simp
  then have run: "self_send = Inr (fst (projr self_send), snd (projr self_send))"
    by (rule Inr_projr)
  have np: "participant plain_options = None"
    by code_simp
  have meId: "meId (example_env example_directory []) = ''999:5@s.whatsapp.net''"
    by code_simp
  have dec: "jidDecode (example_env example_directory []) (Some ''999@s.whatsapp.net'') =
       Some \<lparr> user = ''999'', device = None, server = ''s.whatsapp.net'' \<rparr>"
    by code_simp
  have jids: "recipient_jids (last (sentNodes (snd (projr self_send)))) =
       [''999@s.whatsapp.net'', ''999@s.whatsapp.net'']"
    by code_simp
  have len: "length (to_nodes (last (sentNodes (snd (projr self_send))))) = 2"
    by code_simp
  have dup: "\<not> distinct (recipient_jids (last (sentNodes (snd (projr self_send)))))"
    unfolding jids by simp
  from run np meId dec jids len dup show ?thesis
    by blast
qed

end
